theory Spec2Isabelle
  imports Complex_Main "HOL-Library.Option_ord"
begin

section \<open>The relational schema\<close>

text \<open>
  The schema script declares two enumerations and three tables. A table is the list of
  its rows in physical order; a nullable column is an \<open>option\<close> (\<open>None\<close> is SQL NULL).
  A \<open>uuid\<close> is kept as its text form, a timestamp as a number. Column names that
  several tables share (\<open>id\<close>, \<open>user_id\<close>, \<open>created_at\<close>) carry the table as a prefix.
\<close>

type_synonym uuid = string
type_synonym timestamp = int

datatype membership_type = Basic | Silver | Gold | Platinum

datatype application_status = Pending | Approved | Rejected

record profile =
  profile_id :: uuid
  full_name :: string
  email :: string
  phone :: string
  date_of_birth :: int
  address :: string
  city :: string
  state :: string
  pincode :: string
  emergency_contact :: string
  emergency_phone :: string
  aadhar_number :: string
  aadhar_card_url :: "string option"
  profile_created_at :: "timestamp option"
  profile_updated_at :: "timestamp option"

record membership_application =
  app_id :: uuid
  app_user_id :: uuid
  app_membership_type :: membership_type
  amount :: rat
  payment_reference :: "string option"
  status :: "application_status option"
  admin_notes :: "string option"
  app_created_at :: "timestamp option"
  app_updated_at :: "timestamp option"

record user_role =
  role_id :: uuid
  role_user_id :: uuid
  role :: string
  role_created_at :: "timestamp option"

text \<open>
  \<open>auth.users\<close> belongs to the authentication service; the scripts read only its
  \<open>id\<close> and \<open>email\<close> columns.
\<close>

record auth_user =
  auth_user_id :: uuid
  auth_user_email :: "string option"

text \<open>\<open>UNIQUE(user_id, role)\<close> on \<open>user_roles\<close>.\<close>

definition user_roles_unique :: "user_role list \<Rightarrow> bool" where
  "user_roles_unique rs = distinct (map (\<lambda>r. (role_user_id r, role r)) rs)"

section \<open>The role-resolution function\<close>

text \<open>
  \<open>SELECT 1 FROM public.user_roles WHERE user_id = check_user_id AND role = 'admin'\<close>:
  the rows the WHERE clause keeps. A NULL argument makes \<open>user_id = check_user_id\<close> NULL
  on every row, so no row is kept.
\<close>

definition is_admin_rows :: "user_role list \<Rightarrow> uuid option \<Rightarrow> user_role list" where
  "is_admin_rows rs check_user_id =
     (case check_user_id of
        None \<Rightarrow> []
      | Some u \<Rightarrow> filter (\<lambda>r. role_user_id r = u \<and> role r = ''admin'') rs)"

text \<open>
  \<open>is_admin\<close> returns \<open>EXISTS (SELECT ...)\<close>. It is \<open>SECURITY DEFINER\<close>: it reads the whole
  table whatever the caller may see, which is why it takes the table and not the
  caller's view of it.
\<close>

definition is_admin :: "user_role list \<Rightarrow> uuid option \<Rightarrow> bool" where
  "is_admin rs check_user_id = (is_admin_rows rs check_user_id \<noteq> [])"

text \<open>
  The statement as a database operation: the answer and the table after the call.
  The body holds a SELECT only.
\<close>

definition is_admin_call :: "user_role list \<Rightarrow> uuid option \<Rightarrow> bool \<times> user_role list" where
  "is_admin_call rs check_user_id = (is_admin rs check_user_id, rs)"

section \<open>The admin role assignment script\<close>

datatype notice = Admin_role_assigned string | User_not_found string

definition admin_email :: string where
  "admin_email = ''akashakash200243@gmail.com''"

text \<open>
  \<open>SELECT id INTO user_id_to_set FROM auth.users WHERE email = ...\<close>: the first row the
  WHERE clause keeps, NULL when it keeps none.
\<close>

definition select_user_id_by_email :: "auth_user list \<Rightarrow> string \<Rightarrow> uuid option" where
  "select_user_id_by_email us e =
     map_option auth_user_id (find (\<lambda>u. auth_user_email u = Some e) us)"

text \<open>
  \<open>INSERT INTO public.user_roles (user_id, role) VALUES (u, r) ON CONFLICT (user_id, role)
  DO NOTHING\<close>. The columns \<open>id\<close> and \<open>created_at\<close> take their defaults
  (\<open>gen_random_uuid()\<close>, \<open>now()\<close>), which are inputs here.
\<close>

definition insert_role_on_conflict_do_nothing ::
  "uuid \<Rightarrow> timestamp \<Rightarrow> uuid \<Rightarrow> string \<Rightarrow> user_role list \<Rightarrow> user_role list" where
  "insert_role_on_conflict_do_nothing new_id now u r rs =
     (if (u, r) \<in> set (map (\<lambda>x. (role_user_id x, role x)) rs) then rs
      else rs @ [\<lparr>role_id = new_id, role_user_id = u, role = r, role_created_at = Some now\<rparr>])"

text \<open>The DO block of the migration: the notice it raises and \<open>user_roles\<close> afterwards.\<close>

definition assign_admin_role ::
  "uuid \<Rightarrow> timestamp \<Rightarrow> auth_user list \<Rightarrow> user_role list \<Rightarrow> notice \<times> user_role list" where
  "assign_admin_role new_id now us rs =
     (case select_user_id_by_email us admin_email of
        Some user_id_to_set \<Rightarrow>
          (Admin_role_assigned admin_email,
           insert_role_on_conflict_do_nothing new_id now user_id_to_set ''admin'' rs)
      | None \<Rightarrow> (User_not_found admin_email, rs))"

text \<open>\<open>user_id uuid NOT NULL REFERENCES auth.users(id)\<close> on \<open>user_roles\<close>.\<close>

definition user_roles_fk :: "auth_user list \<Rightarrow> user_role list \<Rightarrow> bool" where
  "user_roles_fk us rs = (set (map role_user_id rs) \<subseteq> set (map auth_user_id us))"

text \<open>The number of role grants \<open>(u, r)\<close> in the table.\<close>

definition grant_count :: "user_role list \<Rightarrow> uuid \<Rightarrow> string \<Rightarrow> nat" where
  "grant_count rs u r = length (filter (\<lambda>x. role_user_id x = u \<and> role x = r) rs)"

section \<open>Row-level security\<close>

text \<open>
  A request reaches the database under the role \<open>authenticated\<close> with the session's
  identity as \<open>auth.uid()\<close>, or under \<open>anon\<close> with \<open>auth.uid()\<close> NULL.
\<close>

datatype db_role = Anon | Authenticated

record request =
  req_role :: db_role
  req_uid :: "uuid option"

text \<open>SQL comparison and conjunction over values that may be NULL.\<close>

definition sql_eq :: "'a option \<Rightarrow> 'a option \<Rightarrow> bool option" where
  "sql_eq a b = (case a of None \<Rightarrow> None | Some x \<Rightarrow> (case b of None \<Rightarrow> None | Some y \<Rightarrow> Some (x = y)))"

definition sql_and :: "bool option \<Rightarrow> bool option \<Rightarrow> bool option" where
  "sql_and a b =
     (if a = Some False \<or> b = Some False then Some False
      else if a = Some True \<and> b = Some True then Some True
      else None)"

datatype command = SELECT | INSERT | UPDATE | DELETE

datatype policy_for = FOR_ALL | FOR_SELECT | FOR_INSERT | FOR_UPDATE | FOR_DELETE

datatype policy_to = TO_PUBLIC | TO_AUTHENTICATED

text \<open>
  A policy as \<open>CREATE POLICY\<close> declares it: its name, the command it is for, the roles it
  is granted to, and its \<open>USING\<close> and \<open>WITH CHECK\<close> expressions where it has them. An
  expression sees the request, the \<open>user_roles\<close> table (through \<open>is_admin\<close>) and the row.
\<close>

type_synonym 'r policy_expr = "request \<Rightarrow> user_role list \<Rightarrow> 'r \<Rightarrow> bool option"

record 'r policy =
  policy_name :: string
  policy_for :: policy_for
  policy_to :: policy_to
  policy_using :: "'r policy_expr option"
  policy_with_check :: "'r policy_expr option"

fun applies_to_command :: "policy_for \<Rightarrow> command \<Rightarrow> bool" where
  "applies_to_command FOR_ALL c = True"
| "applies_to_command FOR_SELECT c = (c = SELECT)"
| "applies_to_command FOR_INSERT c = (c = INSERT)"
| "applies_to_command FOR_UPDATE c = (c = UPDATE)"
| "applies_to_command FOR_DELETE c = (c = DELETE)"

fun applies_to_role :: "policy_to \<Rightarrow> db_role \<Rightarrow> bool" where
  "applies_to_role TO_PUBLIC r = True"
| "applies_to_role TO_AUTHENTICATED r = (r = Authenticated)"

definition applicable :: "'r policy \<Rightarrow> command \<Rightarrow> request \<Rightarrow> bool" where
  "applicable p c req =
     (applies_to_command (policy_for p) c \<and> applies_to_role (policy_to p) (req_role req))"

text \<open>An expression lets a row through when it evaluates to true; false and NULL do not.\<close>

definition expr_holds :: "'r policy_expr option \<Rightarrow> request \<Rightarrow> user_role list \<Rightarrow> 'r \<Rightarrow> bool" where
  "expr_holds e req rs row = (case e of None \<Rightarrow> False | Some f \<Rightarrow> f req rs row = Some True)"

text \<open>
  The expression checked against a new row: \<open>WITH CHECK\<close>, and \<open>USING\<close> for a policy that
  declares no \<open>WITH CHECK\<close>.
\<close>

definition check_expr :: "'r policy \<Rightarrow> 'r policy_expr option" where
  "check_expr p = (case policy_with_check p of Some f \<Rightarrow> Some f | None \<Rightarrow> policy_using p)"

text \<open>
  Modelled from the spec: the engine that enforces the policies is the backend's, not the
  repository's. Row-level security is enabled on the three tables and every policy is
  permissive: the policies applicable to a command are combined with OR (section 4.2),
  and with no applicable policy nothing passes. \<open>rls_using\<close> decides which existing rows a
  command may touch, \<open>rls_check\<close> whether a new row may be written.
\<close>

definition rls_using :: "'r policy list \<Rightarrow> command \<Rightarrow> request \<Rightarrow> user_role list \<Rightarrow> 'r \<Rightarrow> bool" where
  "rls_using ps c req rs row =
     (\<exists>p \<in> set ps. applicable p c req \<and> expr_holds (policy_using p) req rs row)"

definition rls_check :: "'r policy list \<Rightarrow> command \<Rightarrow> request \<Rightarrow> user_role list \<Rightarrow> 'r \<Rightarrow> bool" where
  "rls_check ps c req rs row =
     (\<exists>p \<in> set ps. applicable p c req \<and> expr_holds (check_expr p) req rs row)"

datatype backend_error = Policy_violation | Invalid_enum_label string
  | Negative_offset | Request_failed string

text \<open>
  Modelled from the spec: the effect of the four commands on a table under its policies
  (section 4.2: where no predicate holds, a read returns zero rows and a write does not
  go through). A SELECT returns the rows the policies let through; it raises nothing.
\<close>

definition select_rows :: "'r policy list \<Rightarrow> request \<Rightarrow> user_role list \<Rightarrow> 'r list \<Rightarrow> 'r list" where
  "select_rows ps req rs tbl = filter (rls_using ps SELECT req rs) tbl"

text \<open>An INSERT whose row fails the check is refused.\<close>

definition insert_row ::
  "'r policy list \<Rightarrow> request \<Rightarrow> user_role list \<Rightarrow> 'r \<Rightarrow> 'r list \<Rightarrow> backend_error + 'r list" where
  "insert_row ps req rs row tbl =
     (if rls_check ps INSERT req rs row then Inr (tbl @ [row]) else Inl Policy_violation)"

text \<open>
  An UPDATE or DELETE with a WHERE clause reaches the rows that the WHERE clause keeps,
  that the caller may read, and that the command's policies let through; the other rows
  stay as they are, without an error. An UPDATE whose new row fails the check is refused
  as a whole.
\<close>

definition reachable :: "'r policy list \<Rightarrow> command \<Rightarrow> request \<Rightarrow> user_role list \<Rightarrow> ('r \<Rightarrow> bool) \<Rightarrow> 'r \<Rightarrow> bool" where
  "reachable ps c req rs wh row =
     (wh row \<and> rls_using ps SELECT req rs row \<and> rls_using ps c req rs row)"

definition update_rows ::
  "'r policy list \<Rightarrow> request \<Rightarrow> user_role list \<Rightarrow> ('r \<Rightarrow> bool) \<Rightarrow> ('r \<Rightarrow> 'r) \<Rightarrow> 'r list
     \<Rightarrow> backend_error + 'r list" where
  "update_rows ps req rs wh upd tbl =
     (if list_ex (\<lambda>row. reachable ps UPDATE req rs wh row \<and> \<not> rls_check ps UPDATE req rs (upd row)) tbl
      then Inl Policy_violation
      else Inr (map (\<lambda>row. if reachable ps UPDATE req rs wh row then upd row else row) tbl))"

definition delete_rows ::
  "'r policy list \<Rightarrow> request \<Rightarrow> user_role list \<Rightarrow> ('r \<Rightarrow> bool) \<Rightarrow> 'r list \<Rightarrow> 'r list" where
  "delete_rows ps req rs wh tbl = filter (\<lambda>row. \<not> reachable ps DELETE req rs wh row) tbl"

subsection \<open>The policies of the three tables\<close>

definition profiles_policies :: "profile policy list" where
  "profiles_policies =
     [\<lparr>policy_name = ''Users can view and update their own profile.'',
       policy_for = FOR_ALL, policy_to = TO_PUBLIC,
       policy_using = Some (\<lambda>req rs p. sql_eq (req_uid req) (Some (profile_id p))),
       policy_with_check = None\<rparr>,
      \<lparr>policy_name = ''Admins can view all profiles.'',
       policy_for = FOR_SELECT, policy_to = TO_PUBLIC,
       policy_using = Some (\<lambda>req rs p. Some (is_admin rs (req_uid req))),
       policy_with_check = None\<rparr>]"

definition membership_applications_policies :: "membership_application policy list" where
  "membership_applications_policies =
     [\<lparr>policy_name = ''Users can view their own applications.'',
       policy_for = FOR_SELECT, policy_to = TO_PUBLIC,
       policy_using = Some (\<lambda>req rs a. sql_eq (req_uid req) (Some (app_user_id a))),
       policy_with_check = None\<rparr>,
      \<lparr>policy_name = ''Users can create their own applications.'',
       policy_for = FOR_INSERT, policy_to = TO_PUBLIC,
       policy_using = None,
       policy_with_check = Some (\<lambda>req rs a. sql_eq (req_uid req) (Some (app_user_id a)))\<rparr>,
      \<lparr>policy_name = ''Admins can manage all applications.'',
       policy_for = FOR_ALL, policy_to = TO_PUBLIC,
       policy_using = Some (\<lambda>req rs a. Some (is_admin rs (req_uid req))),
       policy_with_check = None\<rparr>]"

definition user_roles_policies :: "user_role policy list" where
  "user_roles_policies =
     [\<lparr>policy_name = ''Admins can manage all user roles.'',
       policy_for = FOR_ALL, policy_to = TO_PUBLIC,
       policy_using = Some (\<lambda>req rs r. Some (is_admin rs (req_uid req))),
       policy_with_check = None\<rparr>]"

text \<open>The two predicates the policies are built from.\<close>

definition self_access :: "request \<Rightarrow> uuid \<Rightarrow> bool" where
  "self_access req owner = (req_uid req = Some owner)"

definition admin_access :: "request \<Rightarrow> user_role list \<Rightarrow> bool" where
  "admin_access req rs = is_admin rs (req_uid req)"

section \<open>The document store\<close>

record bucket =
  bucket_id :: string
  bucket_name :: string
  bucket_public :: bool
  file_size_limit :: nat
  allowed_mime_types :: "string list"

record storage_object =
  object_bucket_id :: string
  object_name :: string
  object_size :: nat
  object_mime_type :: string

definition aadhar_cards :: bucket where
  "aadhar_cards =
     \<lparr>bucket_id = ''aadhar-cards'', bucket_name = ''aadhar-cards'', bucket_public = True,
      file_size_limit = 5242880,
      allowed_mime_types = [''image/jpeg'', ''image/png'', ''application/pdf'']\<rparr>"

text \<open>\<open>INSERT INTO storage.buckets ... ON CONFLICT (id) DO NOTHING\<close>.\<close>

definition create_bucket :: "bucket \<Rightarrow> bucket list \<Rightarrow> bucket list" where
  "create_bucket b bs = (if bucket_id b \<in> set (map bucket_id bs) then bs else bs @ [b])"

text \<open>
  Modelled from the spec: \<open>storage.foldername\<close> is the storage service's helper, which the
  policies call for the path prefix of an object (section 3): the segments of an object
  name between slashes, without the last one (the file name). \<open>(...)[1]\<close> is the first
  element of the array, NULL when the array is empty.
\<close>

fun string_to_array :: "char \<Rightarrow> string \<Rightarrow> string list" where
  "string_to_array c [] = []"
| "string_to_array c (x # xs) =
     (if x = c then [] # (if xs = [] then [[]] else string_to_array c xs)
      else (case string_to_array c xs of
              [] \<Rightarrow> [[x]]
            | y # ys \<Rightarrow> (x # y) # ys))"

definition foldername :: "string \<Rightarrow> string list" where
  "foldername name = butlast (string_to_array (CHR ''/'') name)"

definition array_first :: "'a list \<Rightarrow> 'a option" where
  "array_first xs = (case xs of [] \<Rightarrow> None | x # _ \<Rightarrow> Some x)"

definition own_folder :: "storage_object policy_expr" where
  "own_folder req rs obj =
     sql_and (Some (object_bucket_id obj = ''aadhar-cards''))
       (sql_eq (array_first (foldername (object_name obj))) (req_uid req))"

definition storage_objects_policies :: "storage_object policy list" where
  "storage_objects_policies =
     [\<lparr>policy_name = ''Users can upload their own aadhar card.'',
       policy_for = FOR_INSERT, policy_to = TO_AUTHENTICATED,
       policy_using = None, policy_with_check = Some own_folder\<rparr>,
      \<lparr>policy_name = ''Users can view their own aadhar card.'',
       policy_for = FOR_SELECT, policy_to = TO_AUTHENTICATED,
       policy_using = Some own_folder, policy_with_check = None\<rparr>,
      \<lparr>policy_name = ''Users can update their own aadhar card.'',
       policy_for = FOR_UPDATE, policy_to = TO_AUTHENTICATED,
       policy_using = Some own_folder, policy_with_check = None\<rparr>]"

text \<open>The predicate of the three policies: the request is the owner of the object's folder.\<close>

definition owns_object :: "request \<Rightarrow> storage_object \<Rightarrow> bool" where
  "owns_object req obj =
     (req_role req = Authenticated \<and> object_bucket_id obj = ''aadhar-cards''
      \<and> req_uid req \<noteq> None \<and> array_first (foldername (object_name obj)) = req_uid req)"

datatype storage_error = Bucket_not_found | Payload_too_large | Mime_type_not_allowed
  | Storage_policy_violation | Object_not_found

text \<open>
  Modelled from the spec: the storage service is the backend's (sections 3 and 6: a
  bucket with public read, a size limit per object and a list of content types). An upload
  is held to the bucket's size limit and content types and to the INSERT policies; a
  download over the authenticated route is a SELECT on \<open>storage.objects\<close>; a bucket
  declared public serves its objects over the public route to any requester, with no
  policy consulted.
\<close>

definition find_object :: "storage_object list \<Rightarrow> string \<Rightarrow> string \<Rightarrow> storage_object option" where
  "find_object objs b name = find (\<lambda>obj. object_bucket_id obj = b \<and> object_name obj = name) objs"

definition upload_object ::
  "bucket list \<Rightarrow> request \<Rightarrow> user_role list \<Rightarrow> storage_object \<Rightarrow> storage_object list
     \<Rightarrow> storage_error + storage_object list" where
  "upload_object bs req rs obj objs =
     (case find (\<lambda>b. bucket_id b = object_bucket_id obj) bs of
        None \<Rightarrow> Inl Bucket_not_found
      | Some b \<Rightarrow>
          if object_size obj > file_size_limit b then Inl Payload_too_large
          else if object_mime_type obj \<notin> set (allowed_mime_types b) then Inl Mime_type_not_allowed
          else if \<not> rls_check storage_objects_policies INSERT req rs obj
            then Inl Storage_policy_violation
          else Inr (objs @ [obj]))"

definition download_authenticated ::
  "request \<Rightarrow> user_role list \<Rightarrow> storage_object list \<Rightarrow> string \<Rightarrow> string
     \<Rightarrow> storage_error + storage_object" where
  "download_authenticated req rs objs b name =
     (case find_object (select_rows storage_objects_policies req rs objs) b name of
        None \<Rightarrow> Inl Object_not_found
      | Some obj \<Rightarrow> Inr obj)"

definition download_public ::
  "bucket list \<Rightarrow> request \<Rightarrow> storage_object list \<Rightarrow> string \<Rightarrow> string
     \<Rightarrow> storage_error + storage_object" where
  "download_public bs req objs b name =
     (case find (\<lambda>x. bucket_id x = b) bs of
        None \<Rightarrow> Inl Bucket_not_found
      | Some x \<Rightarrow>
          if \<not> bucket_public x then Inl Bucket_not_found
          else (case find_object objs b name of
                  None \<Rightarrow> Inl Object_not_found
                | Some obj \<Rightarrow> Inr obj))"

section \<open>The client's data-access functions\<close>

record database =
  auth_users :: "auth_user list"
  profiles :: "profile list"
  membership_applications :: "membership_application list"
  user_roles :: "user_role list"

text \<open>
  The request a query builder accumulates on \<open>membership_applications\<close>: whether an exact
  count is asked for, the equality filter on \<open>status\<close>, the ordering, the row range and
  the limit.
\<close>

record applications_query =
  q_count_exact :: bool
  q_eq_status :: "string option"
  q_order_created_at_desc :: bool
  q_range :: "(int \<times> int) option"
  q_limit :: "nat option"

definition from_membership_applications :: "bool \<Rightarrow> applications_query" where
  "from_membership_applications count_exact =
     \<lparr>q_count_exact = count_exact, q_eq_status = None, q_order_created_at_desc = False,
      q_range = None, q_limit = None\<rparr>"

definition eq_status :: "string \<Rightarrow> applications_query \<Rightarrow> applications_query" where
  "eq_status s q = q\<lparr>q_eq_status := Some s\<rparr>"

definition order_created_at_desc :: "applications_query \<Rightarrow> applications_query" where
  "order_created_at_desc q = q\<lparr>q_order_created_at_desc := True\<rparr>"

definition range_rows :: "int \<Rightarrow> int \<Rightarrow> applications_query \<Rightarrow> applications_query" where
  "range_rows f t q = q\<lparr>q_range := Some (f, t)\<rparr>"

definition limit_rows :: "nat \<Rightarrow> applications_query \<Rightarrow> applications_query" where
  "limit_rows n q = q\<lparr>q_limit := Some n\<rparr>"

text \<open>The labels of the enumeration \<open>application_status\<close>.\<close>

definition status_of_label :: "string \<Rightarrow> application_status option" where
  "status_of_label s =
     (if s = ''pending'' then Some Pending
      else if s = ''approved'' then Some Approved
      else if s = ''rejected'' then Some Rejected
      else None)"

text \<open>
  The rows of \<open>membership_applications\<close> a request sees under row-level security, narrowed
  by the equality filter when there is one. A row whose status is NULL equals no label.
\<close>

definition matching_applications ::
  "request \<Rightarrow> database \<Rightarrow> application_status option \<Rightarrow> membership_application list" where
  "matching_applications req db flt =
     (let visible = select_rows membership_applications_policies req (user_roles db)
                      (membership_applications db)
      in case flt of None \<Rightarrow> visible | Some st \<Rightarrow> filter (\<lambda>a. status a = Some st) visible)"

text \<open>\<open>ORDER BY created_at DESC\<close>: NULLs first, then the latest first; ties keep their order.\<close>

definition by_created_at_desc :: "membership_application list \<Rightarrow> membership_application list" where
  "by_created_at_desc rows = sort_key (\<lambda>a. map_option uminus (app_created_at a)) rows"

text \<open>A range \<open>(from, to)\<close> is the offset \<open>from\<close> and the limit \<open>to - from + 1\<close>.\<close>

definition window :: "(int \<times> int) option \<Rightarrow> 'a list \<Rightarrow> 'a list" where
  "window r xs = (case r of None \<Rightarrow> xs | Some (f, t) \<Rightarrow> take (nat (t - f + 1)) (drop (nat f) xs))"

definition limited :: "nat option \<Rightarrow> 'a list \<Rightarrow> 'a list" where
  "limited l xs = (case l of None \<Rightarrow> xs | Some n \<Rightarrow> take n xs)"

text \<open>
  Modelled from the spec: the backend's answer to a table query (section 6: table, filter,
  order, range and count mode give rows and a count), an error or the rows and the count.
  The backend is not part of the repository; this is the query read as the SQL it stands
  for, an offset and limit over the filtered, ordered rows the request may read, with the
  count taken of the filtered rows before the window. A request can fail for reasons of
  its own (\<open>fault\<close>: the network, the service); a label outside the enumeration and a
  negative offset are errors of the database. A range that starts past the last row is
  an empty window here; a backend that refuses such a range is not modelled.
\<close>

definition run_applications_query ::
  "request \<Rightarrow> database \<Rightarrow> backend_error option \<Rightarrow> applications_query
     \<Rightarrow> backend_error + (membership_application list \<times> nat option)" where
  "run_applications_query req db fault q =
     (case fault of
        Some e \<Rightarrow> Inl e
      | None \<Rightarrow>
          (case (case q_eq_status q of
                   None \<Rightarrow> Inr None
                 | Some s \<Rightarrow> (case status_of_label s of
                                None \<Rightarrow> Inl (Invalid_enum_label s)
                              | Some st \<Rightarrow> Inr (Some st))) of
             Inl e \<Rightarrow> Inl e
           | Inr flt \<Rightarrow>
               if (case q_range q of None \<Rightarrow> False | Some (f, t) \<Rightarrow> f < 0) then Inl Negative_offset
               else
                 let rows = matching_applications req db flt;
                     ordered = (if q_order_created_at_desc q then by_created_at_desc rows else rows)
                 in Inr (limited (q_limit q) (window (q_range q) ordered),
                         if q_count_exact q then Some (length rows) else None)))"

text \<open>
  An embedded resource arrives as one object (or null) or as an array; \<open>profiles\<close> is
  reached through the foreign key \<open>user_id\<close>, so the backend sends the one profile the
  request may read, or null.
\<close>

datatype 'a embedded = Embedded_object "'a option" | Embedded_array "'a list"

definition embed_profile :: "request \<Rightarrow> database \<Rightarrow> membership_application \<Rightarrow> profile embedded" where
  "embed_profile req db a =
     Embedded_object (find (\<lambda>p. profile_id p = app_user_id a)
       (select_rows profiles_policies req (user_roles db) (profiles db)))"

text \<open>\<open>Array.isArray(x) ? x[0] : x\<close>\<close>

definition first_if_array :: "'a embedded \<Rightarrow> 'a option" where
  "first_if_array x =
     (case x of
        Embedded_array xs \<Rightarrow> (case xs of [] \<Rightarrow> None | y # _ \<Rightarrow> Some y)
      | Embedded_object y \<Rightarrow> y)"

definition ITEMS_PER_PAGE :: int where
  "ITEMS_PER_PAGE = 10"

subsection \<open>The application list\<close>

text \<open>The columns \<open>fetchApplications\<close> selects; the profile is \<open>(full_name, email)\<close>.\<close>

record application_item =
  item_id :: uuid
  item_created_at :: "timestamp option"
  item_membership_type :: membership_type
  item_status :: "application_status option"
  item_user_id :: uuid
  item_profile :: "(string \<times> string) option"

definition application_item_of ::
  "request \<Rightarrow> database \<Rightarrow> membership_application \<Rightarrow> application_item" where
  "application_item_of req db a =
     \<lparr>item_id = app_id a, item_created_at = app_created_at a,
      item_membership_type = app_membership_type a, item_status = status a,
      item_user_id = app_user_id a,
      item_profile = map_option (\<lambda>p. (full_name p, email p)) (first_if_array (embed_profile req db a))\<rparr>"

definition fetchApplications ::
  "request \<Rightarrow> database \<Rightarrow> backend_error option \<Rightarrow> int \<Rightarrow> string
     \<Rightarrow> backend_error + (application_item list \<times> nat)" where
  "fetchApplications req db fault page st =
     (let from = (page - 1) * ITEMS_PER_PAGE;
          to = from + ITEMS_PER_PAGE - 1;
          query = from_membership_applications True;
          query = (if st \<noteq> ''all'' then eq_status st query else query)
      in case run_applications_query req db fault (range_rows from to (order_created_at_desc query)) of
           Inl error \<Rightarrow> Inl error
         | Inr (data, count) \<Rightarrow>
             Inr (map (application_item_of req db) data, case count of None \<Rightarrow> 0 | Some c \<Rightarrow> c))"

subsection \<open>The member list\<close>

text \<open>The columns \<open>fetchMembers\<close> selects; the profile is \<open>(full_name, email, phone)\<close>.\<close>

record member_item =
  member_id :: uuid
  member_created_at :: "timestamp option"
  member_profiles :: "(string \<times> string \<times> string) option"

definition member_item_of :: "request \<Rightarrow> database \<Rightarrow> membership_application \<Rightarrow> member_item" where
  "member_item_of req db a =
     \<lparr>member_id = app_id a, member_created_at = app_created_at a,
      member_profiles =
        map_option (\<lambda>p. (full_name p, email p, phone p)) (first_if_array (embed_profile req db a))\<rparr>"

definition fetchMembers ::
  "request \<Rightarrow> database \<Rightarrow> backend_error option \<Rightarrow> int
     \<Rightarrow> backend_error + (member_item list \<times> nat)" where
  "fetchMembers req db fault page =
     (let from = (page - 1) * ITEMS_PER_PAGE;
          to = from + ITEMS_PER_PAGE - 1
      in case run_applications_query req db fault
                (range_rows from to (order_created_at_desc
                   (eq_status ''approved'' (from_membership_applications True)))) of
           Inl error \<Rightarrow> Inl error
         | Inr (data, count) \<Rightarrow>
             Inr (map (member_item_of req db) data, case count of None \<Rightarrow> 0 | Some c \<Rightarrow> c))"

subsection \<open>The recent-applications widget\<close>

text \<open>
  \<open>fetchRecentApplications\<close> sends two requests: the five latest applications, then the
  profiles of their owners, \<open>(id, full_name, email)\<close>, which it joins through a \<open>Map\<close>
  (a later entry with the same key replaces an earlier one).
\<close>

record recent_item =
  recent_id :: uuid
  recent_created_at :: "timestamp option"
  recent_membership_type :: membership_type
  recent_status :: "application_status option"
  recent_user_id :: uuid
  recent_profile :: "(uuid \<times> string \<times> string) option"

definition select_profiles_in ::
  "request \<Rightarrow> database \<Rightarrow> backend_error option \<Rightarrow> uuid list
     \<Rightarrow> backend_error + (uuid \<times> string \<times> string) list" where
  "select_profiles_in req db fault ids =
     (case fault of
        Some e \<Rightarrow> Inl e
      | None \<Rightarrow>
          Inr (map (\<lambda>p. (profile_id p, full_name p, email p))
                 (filter (\<lambda>p. profile_id p \<in> set ids)
                    (select_rows profiles_policies req (user_roles db) (profiles db)))))"

definition fetchRecentApplications ::
  "request \<Rightarrow> database \<Rightarrow> backend_error option \<Rightarrow> backend_error option
     \<Rightarrow> backend_error + recent_item list" where
  "fetchRecentApplications req db fault1 fault2 =
     (case run_applications_query req db fault1
             (limit_rows 5 (order_created_at_desc (from_membership_applications False))) of
        Inl applicationsError \<Rightarrow> Inl applicationsError
      | Inr (applications, count) \<Rightarrow>
          (let userIds = map app_user_id applications
           in case select_profiles_in req db fault2 userIds of
                Inl profilesError \<Rightarrow> Inl profilesError
              | Inr ps \<Rightarrow>
                  (let profilesMap = map_of (rev (map (\<lambda>p. (fst p, p)) ps))
                   in Inr (map (\<lambda>app.
                        \<lparr>recent_id = app_id app, recent_created_at = app_created_at app,
                         recent_membership_type = app_membership_type app,
                         recent_status = status app, recent_user_id = app_user_id app,
                         recent_profile = profilesMap (app_user_id app)\<rparr>) applications))))"

subsection \<open>The status update\<close>

text \<open>
  \<open>update({ status }).eq("id", id)\<close>, the same in both components. The result is the error
  thrown, if any, and the database afterwards; a request that fails changes nothing.
\<close>

definition updateApplicationStatus ::
  "request \<Rightarrow> database \<Rightarrow> backend_error option \<Rightarrow> uuid \<Rightarrow> application_status
     \<Rightarrow> backend_error option \<times> database" where
  "updateApplicationStatus req db fault ident st =
     (case fault of
        Some error \<Rightarrow> (Some error, db)
      | None \<Rightarrow>
          (case update_rows membership_applications_policies req (user_roles db)
                  (\<lambda>a. app_id a = ident) (\<lambda>a. a\<lparr>status := Some st\<rparr>)
                  (membership_applications db) of
             Inl error \<Rightarrow> (Some error, db)
           | Inr rows \<Rightarrow> (None, db\<lparr>membership_applications := rows\<rparr>)))"

text \<open>Two rows that agree on every column but \<open>status\<close>.\<close>

definition same_but_status :: "membership_application \<Rightarrow> membership_application \<Rightarrow> bool" where
  "same_but_status a b =
     (app_id b = app_id a \<and> app_user_id b = app_user_id a
      \<and> app_membership_type b = app_membership_type a \<and> amount b = amount a
      \<and> payment_reference b = payment_reference a \<and> admin_notes b = admin_notes a
      \<and> app_created_at b = app_created_at a \<and> app_updated_at b = app_updated_at a)"

text \<open>
  What a status update may do to a row: leave it as it is, or, for a row with the given
  identifier, set its status and nothing else.
\<close>

definition status_frame :: "uuid \<Rightarrow> application_status \<Rightarrow> membership_application \<Rightarrow> membership_application \<Rightarrow> bool" where
  "status_frame ident st a b =
     (same_but_status a b \<and> (b = a \<or> (app_id a = ident \<and> status b = Some st)))"

text \<open>
  The contract of section 4.4 of the specification, in its words: a 1-indexed page and an
  optional status filter; a zero-indexed row range of the fixed page size 10; one request
  that returns the exact count of the matching rows together with the bounded window of
  them, ordered by creation time descending.
\<close>

definition paginated_contract ::
  "request \<Rightarrow> database \<Rightarrow> int \<Rightarrow> application_status option
     \<Rightarrow> membership_application list \<times> nat" where
  "paginated_contract req db page flt =
     (let rows = matching_applications req db flt
      in (take 10 (drop (nat (10 * (page - 1))) (by_created_at_desc rows)), length rows))"

section \<open>The admin route guard\<close>

record user =
  user_id :: uuid
  user_email :: string

record session =
  session_user :: user

datatype rpc_response = Rpc_data bool | Rpc_error string | Rpc_threw string

text \<open>What the hook asks of the backend: the current session and the \<open>is_admin\<close> call.\<close>

record auth_client =
  getSession :: "session option"
  rpc_is_admin :: "uuid \<Rightarrow> rpc_response"

record admin_auth =
  hook_user :: "user option"
  isAdmin :: bool
  loading :: bool

definition initial_admin_auth :: admin_auth where
  "initial_admin_auth = \<lparr>hook_user = None, isAdmin = False, loading = True\<rparr>"

text \<open>One run of \<open>checkAdminStatus\<close>, from \<open>setLoading(true)\<close> to \<open>setLoading(false)\<close>.\<close>

definition checkAdminStatus :: "auth_client \<Rightarrow> admin_auth \<Rightarrow> admin_auth" where
  "checkAdminStatus client st0 =
     (let st = st0\<lparr>loading := True\<rparr>
      in case getSession client of
           Some s \<Rightarrow>
             (let st = st\<lparr>hook_user := Some (session_user s)\<rparr>
              in case rpc_is_admin client (user_id (session_user s)) of
                   Rpc_data data \<Rightarrow> st\<lparr>isAdmin := data, loading := False\<rparr>
                 | Rpc_error error \<Rightarrow> st\<lparr>isAdmin := False, loading := False\<rparr>
                 | Rpc_threw error \<Rightarrow> st\<lparr>isAdmin := False, loading := False\<rparr>)
         | None \<Rightarrow> st\<lparr>isAdmin := False, loading := False\<rparr>)"

text \<open>The effect on mount, and the listener registered with \<open>onAuthStateChange\<close>.\<close>

definition useAdminAuth_mount :: "auth_client \<Rightarrow> admin_auth" where
  "useAdminAuth_mount client = checkAdminStatus client initial_admin_auth"

definition onAuthStateChange :: "auth_client \<Rightarrow> session option \<Rightarrow> admin_auth \<Rightarrow> admin_auth" where
  "onAuthStateChange client s st =
     checkAdminStatus client (st\<lparr>hook_user := map_option session_user s\<rparr>)"

datatype rendered = Loading_indicator | Navigate string | Outlet

definition AdminProtectedRoute :: "admin_auth \<Rightarrow> rendered" where
  "AdminProtectedRoute st =
     (if loading st then Loading_indicator
      else if \<not> isAdmin st then Navigate ''/admin/login''
      else Outlet)"

section \<open>The admin login page\<close>

record toast =
  toast_title :: string
  toast_description :: string
  toast_destructive :: bool

datatype sign_in_response = Sign_in_data "user option" | Sign_in_error string | Sign_in_threw string

record login_backend =
  signInWithPassword :: "string \<Rightarrow> string \<Rightarrow> sign_in_response"
  login_rpc_is_admin :: "uuid \<Rightarrow> rpc_response"

text \<open>
  The page's state, with the session the authentication client holds: a successful
  sign-in establishes it, \<open>signOut\<close> ends it.
\<close>

record login_page =
  login_email :: string
  login_password :: string
  login_loading :: bool
  toasts :: "toast list"
  navigated :: "string option"
  live_session :: "user option"

definition is_whitespace :: "char \<Rightarrow> bool" where
  "is_whitespace c = (c \<in> set [CHR '' '', CHR 0x09, CHR 0x0A, CHR 0x0B, CHR 0x0C, CHR 0x0D])"

definition trim :: "string \<Rightarrow> string" where
  "trim s = rev (dropWhile is_whitespace (rev (dropWhile is_whitespace s)))"

text \<open>
  \<open>loginSchema.safeParse\<close>: the messages of the issues, the email's first. The test of an
  email address is the validation library's and is a parameter.
\<close>

definition loginSchema :: "(string \<Rightarrow> bool) \<Rightarrow> string \<Rightarrow> string \<Rightarrow> string list" where
  "loginSchema is_email e p =
     (if is_email e then [] else [''Invalid email address''])
     @ (if 1 \<le> length p then [] else [''Password is required''])"

definition login_failed :: "string \<Rightarrow> login_page \<Rightarrow> login_page" where
  "login_failed message st =
     st\<lparr>toasts := toasts st @
          [\<lparr>toast_title = ''Login failed'',
            toast_description = (if message = [] then ''Please check your credentials.'' else message),
            toast_destructive = True\<rparr>],
        login_loading := False\<rparr>"

definition handleLogin :: "(string \<Rightarrow> bool) \<Rightarrow> login_backend \<Rightarrow> login_page \<Rightarrow> login_page" where
  "handleLogin is_email backend st0 =
     (let st = st0\<lparr>login_loading := True\<rparr>
      in case loginSchema is_email (login_email st) (login_password st) of
           message # _ \<Rightarrow>
             st\<lparr>toasts := toasts st @
                  [\<lparr>toast_title = ''Invalid input'', toast_description = message,
                    toast_destructive = True\<rparr>],
                login_loading := False\<rparr>
         | [] \<Rightarrow>
             (case signInWithPassword backend (trim (login_email st)) (login_password st) of
                Sign_in_threw message \<Rightarrow> login_failed message st
              | Sign_in_error message \<Rightarrow> login_failed message st
              | Sign_in_data None \<Rightarrow> login_failed ''Login failed, please try again.'' st
              | Sign_in_data (Some u) \<Rightarrow>
                  (let st = st\<lparr>live_session := Some u\<rparr>
                   in case login_rpc_is_admin backend (user_id u) of
                        Rpc_threw message \<Rightarrow> login_failed message st
                      | Rpc_error message \<Rightarrow> login_failed message st
                      | Rpc_data is_adm \<Rightarrow>
                          if is_adm then
                            st\<lparr>toasts := toasts st @
                                 [\<lparr>toast_title = ''Welcome, Admin!'',
                                   toast_description = ''You have successfully logged in.'',
                                   toast_destructive = False\<rparr>],
                               navigated := Some ''/admin/dashboard'',
                               login_loading := False\<rparr>
                          else
                            st\<lparr>live_session := None,
                               toasts := toasts st @
                                 [\<lparr>toast_title = ''Access Denied'',
                                   toast_description =
                                     ''You do not have permission to access the admin dashboard.'',
                                   toast_destructive = True\<rparr>],
                               login_loading := False\<rparr>)))"

section \<open>Example data\<close>

text \<open>
  A small database used to run the definitions: an administrator \<open>a1\<close>, two members
  \<open>u1\<close> and \<open>u2\<close>, and the account the migration names, \<open>u7\<close>, which signs up after
  the others.
\<close>

definition example_roles :: "user_role list" where
  "example_roles =
     [\<lparr>role_id = ''r1'', role_user_id = ''a1'', role = ''admin'', role_created_at = None\<rparr>,
      \<lparr>role_id = ''r2'', role_user_id = ''u2'', role = ''editor'', role_created_at = None\<rparr>]"

definition example_users_before :: "auth_user list" where
  "example_users_before =
     [\<lparr>auth_user_id = ''a1'', auth_user_email = Some ''someone@example.org''\<rparr>,
      \<lparr>auth_user_id = ''u1'', auth_user_email = Some ''A@example.org''\<rparr>,
      \<lparr>auth_user_id = ''u2'', auth_user_email = Some ''B@example.org''\<rparr>]"

definition example_users :: "auth_user list" where
  "example_users =
     example_users_before
     @ [\<lparr>auth_user_id = ''u7'', auth_user_email = Some ''akashakash200243@gmail.com''\<rparr>]"

definition example_profile :: "uuid \<Rightarrow> string \<Rightarrow> profile" where
  "example_profile u n =
     \<lparr>profile_id = u, full_name = n, email = n @ ''@example.org'', phone = ''000'',
      date_of_birth = 0, address = ''1 Temple Road'', city = ''C'', state = ''S'',
      pincode = ''000000'', emergency_contact = ''E'', emergency_phone = ''111'',
      aadhar_number = ''0000'', aadhar_card_url = None,
      profile_created_at = Some 0, profile_updated_at = Some 0\<rparr>"

definition example_application ::
  "uuid \<Rightarrow> uuid \<Rightarrow> application_status option \<Rightarrow> timestamp option \<Rightarrow> membership_application" where
  "example_application i u st t =
     \<lparr>app_id = i, app_user_id = u, app_membership_type = Basic, amount = 100,
      payment_reference = None, status = st, admin_notes = None,
      app_created_at = t, app_updated_at = t\<rparr>"

definition admin_request :: request where
  "admin_request = \<lparr>req_role = Authenticated, req_uid = Some ''a1''\<rparr>"

definition member_request :: request where
  "member_request = \<lparr>req_role = Authenticated, req_uid = Some ''u1''\<rparr>"

definition anon_request :: request where
  "anon_request = \<lparr>req_role = Anon, req_uid = None\<rparr>"

definition example_card :: "string \<Rightarrow> nat \<Rightarrow> string \<Rightarrow> storage_object" where
  "example_card name n m =
     \<lparr>object_bucket_id = ''aadhar-cards'', object_name = name, object_size = n,
      object_mime_type = m\<rparr>"

definition example_client :: "session option \<Rightarrow> rpc_response \<Rightarrow> auth_client" where
  "example_client s r = \<lparr>getSession = s, rpc_is_admin = (\<lambda>u. r)\<rparr>"

definition example_session :: "uuid \<Rightarrow> session" where
  "example_session u = \<lparr>session_user = \<lparr>user_id = u, user_email = u @ ''@example.org''\<rparr>\<rparr>"

definition example_login_page :: "string \<Rightarrow> string \<Rightarrow> login_page" where
  "example_login_page e p =
     \<lparr>login_email = e, login_password = p, login_loading = False, toasts = [],
      navigated = None, live_session = None\<rparr>"

definition example_backend :: "sign_in_response \<Rightarrow> rpc_response \<Rightarrow> login_backend" where
  "example_backend s r = \<lparr>signInWithPassword = (\<lambda>e p. s), login_rpc_is_admin = (\<lambda>u. r)\<rparr>"

definition example_applications :: "membership_application list" where
  "example_applications =
     [example_application ''x1'' ''u1'' (Some Pending) (Some 1),
      example_application ''x2'' ''u2'' (Some Approved) (Some 2),
      example_application ''x3'' ''u1'' (Some Approved) (Some 3),
      example_application ''x4'' ''u2'' (Some Rejected) (Some 4),
      example_application ''x5'' ''u1'' (Some Approved) (Some 5),
      example_application ''x6'' ''u2'' (Some Pending) (Some 6),
      example_application ''x7'' ''u1'' (Some Approved) (Some 7),
      example_application ''x8'' ''u2'' (Some Approved) (Some 8),
      example_application ''x9'' ''u1'' (Some Rejected) (Some 9),
      example_application ''x10'' ''u2'' (Some Approved) (Some 10),
      example_application ''x11'' ''u1'' (Some Pending) (Some 11),
      example_application ''x12'' ''u2'' (Some Approved) (Some 12)]"

definition example_db :: database where
  "example_db =
     \<lparr>auth_users = example_users,
      profiles = [example_profile ''u1'' ''A'', example_profile ''u2'' ''B''],
      membership_applications = example_applications,
      user_roles = example_roles\<rparr>"

definition small_db :: database where
  "small_db =
     \<lparr>auth_users = example_users,
      profiles = [example_profile ''u1'' ''A'', example_profile ''u2'' ''B''],
      membership_applications =
        [example_application ''x1'' ''u1'' (Some Pending) (Some 1),
         example_application ''x2'' ''u2'' (Some Approved) (Some 2)],
      user_roles = example_roles\<rparr>"

section \<open>Role resolution: results\<close>

lemma is_admin_iff_grant:
  "is_admin rs (Some u) \<longleftrightarrow> (u, ''admin'') \<in> set (map (\<lambda>r. (role_user_id r, role r)) rs)"
  by (auto simp: is_admin_def is_admin_rows_def filter_empty_conv)

lemma is_admin_NULL: "is_admin rs None = False"
  by (simp add: is_admin_def is_admin_rows_def)

text \<open>
  Claim C1. For every identity, \<open>is_admin\<close> answers true exactly when \<open>user_roles\<close> holds a
  row with that identity and the role \<open>admin\<close>; an identity with no row at all (an unknown
  identity among them) gets the answer false, and the call leaves the table as it was.
\<close>

theorem is_admin_correct:
  "(fst (is_admin_call rs (Some u)) \<longleftrightarrow>
      (u, ''admin'') \<in> set (map (\<lambda>r. (role_user_id r, role r)) rs))
   \<and> (u \<notin> set (map role_user_id rs) \<longrightarrow> fst (is_admin_call rs (Some u)) = False)
   \<and> snd (is_admin_call rs check_user_id) = rs"
  by (auto simp: is_admin_call_def is_admin_iff_grant)

theorem is_admin_correct_witness:
  "fst (is_admin_call example_roles (Some ''a1''))
   \<and> fst (is_admin_call example_roles (Some ''u2'')) = False
   \<and> ''u3'' \<notin> set (map role_user_id example_roles)
   \<and> fst (is_admin_call example_roles (Some ''u3'')) = False
   \<and> snd (is_admin_call example_roles (Some ''u3'')) = example_roles"
  using is_admin_correct [of example_roles "''a1''" "Some ''u3''"]
    is_admin_correct [of example_roles "''u2''"]
    is_admin_correct [of example_roles "''u3''"]
  by (simp add: example_roles_def)

section \<open>The admin role assignment: results\<close>

lemma count_key_distinct:
  "distinct (map f xs) \<Longrightarrow>
     length (filter (\<lambda>x. f x = k) xs) = (if k \<in> set (map f xs) then 1 else 0)"
  by (induction xs) (auto simp: image_iff)

lemma grant_count_unique:
  "user_roles_unique rs \<Longrightarrow>
     grant_count rs u r = (if (u, r) \<in> set (map (\<lambda>x. (role_user_id x, role x)) rs) then 1 else 0)"
  unfolding user_roles_unique_def grant_count_def
  using count_key_distinct [of "\<lambda>x. (role_user_id x, role x)" rs "(u, r)"]
  by simp

lemma insert_role_grants:
  "(u, r) \<in> set (map (\<lambda>x. (role_user_id x, role x)) (insert_role_on_conflict_do_nothing i t u r rs))"
  by (simp add: insert_role_on_conflict_do_nothing_def)

lemma insert_role_unique:
  "user_roles_unique rs \<Longrightarrow> user_roles_unique (insert_role_on_conflict_do_nothing i t u r rs)"
  by (auto simp: insert_role_on_conflict_do_nothing_def user_roles_unique_def)

lemma insert_role_again:
  "insert_role_on_conflict_do_nothing i' t' u r (insert_role_on_conflict_do_nothing i t u r rs)
     = insert_role_on_conflict_do_nothing i t u r rs"
  using insert_role_grants [of u r i t rs]
  by (simp add: insert_role_on_conflict_do_nothing_def [of i' t'])

lemma select_user_id_None:
  "select_user_id_by_email us e = None \<longleftrightarrow> (\<forall>x \<in> set us. auth_user_email x \<noteq> Some e)"
  by (auto simp: select_user_id_by_email_def find_None_iff)

lemma select_user_id_Some:
  "select_user_id_by_email us e = Some u \<Longrightarrow>
     \<exists>x \<in> set us. auth_user_email x = Some e \<and> auth_user_id x = u"
  by (auto simp: select_user_id_by_email_def find_Some_iff)

lemma insert_role_others:
  "(v, r') \<noteq> (u, r) \<Longrightarrow>
     grant_count (insert_role_on_conflict_do_nothing i t u r rs) v r' = grant_count rs v r'"
  by (auto simp: insert_role_on_conflict_do_nothing_def grant_count_def)

lemma insert_role_fk:
  "u \<in> set (map auth_user_id us) \<Longrightarrow> user_roles_fk us rs \<Longrightarrow>
     user_roles_fk us (insert_role_on_conflict_do_nothing i t u r rs)"
  by (auto simp: insert_role_on_conflict_do_nothing_def user_roles_fk_def)

lemma assign_found:
  assumes "select_user_id_by_email us admin_email = Some u"
  shows "assign_admin_role i t us rs
     = (Admin_role_assigned admin_email, insert_role_on_conflict_do_nothing i t u ''admin'' rs)"
  using assms by (simp add: assign_admin_role_def)

text \<open>
  Claim C6. The role assignment script is idempotent. When no account in \<open>auth.users\<close> has
  the email, it raises the not-found notice and leaves \<open>user_roles\<close> as it was. When an
  account has the email (and the table satisfies its uniqueness constraint), the script
  raises the assigned notice and the table afterwards holds exactly one row granting an
  account with that email the role \<open>admin\<close>; every other grant is counted as before, the
  table is the old one or the old one with that one row added, and it still satisfies
  the constraint. Where the accounts with the email share one identity, that identity is
  the one granted. The foreign key to \<open>auth.users\<close> is kept. A second run, whatever
  identifier and time the defaults would supply, leaves the table as the first run left
  it: the conflicting insert does nothing and raises no error.
\<close>

theorem assign_admin_role_idempotent:
  "((\<forall>x \<in> set us. auth_user_email x \<noteq> Some admin_email) \<longrightarrow>
      assign_admin_role i t us rs = (User_not_found admin_email, rs))
   \<and> ((\<exists>x \<in> set us. auth_user_email x = Some admin_email) \<and> user_roles_unique rs \<longrightarrow>
      (\<exists>x \<in> set us. auth_user_email x = Some admin_email
         \<and> fst (assign_admin_role i t us rs) = Admin_role_assigned admin_email
         \<and> grant_count (snd (assign_admin_role i t us rs)) (auth_user_id x) ''admin'' = 1
         \<and> (\<forall>v r. (v, r) \<noteq> (auth_user_id x, ''admin'') \<longrightarrow>
              grant_count (snd (assign_admin_role i t us rs)) v r = grant_count rs v r)
         \<and> (snd (assign_admin_role i t us rs) = rs
            \<or> snd (assign_admin_role i t us rs)
               = rs @ [\<lparr>role_id = i, role_user_id = auth_user_id x, role = ''admin'',
                         role_created_at = Some t\<rparr>]))
      \<and> user_roles_unique (snd (assign_admin_role i t us rs)))
   \<and> (y \<in> set us \<and> auth_user_email y = Some admin_email
        \<and> (\<forall>z \<in> set us. auth_user_email z = Some admin_email \<longrightarrow> auth_user_id z = auth_user_id y)
        \<and> user_roles_unique rs \<longrightarrow>
        grant_count (snd (assign_admin_role i t us rs)) (auth_user_id y) ''admin'' = 1)
   \<and> (user_roles_fk us rs \<longrightarrow> user_roles_fk us (snd (assign_admin_role i t us rs)))
   \<and> snd (assign_admin_role i' t' us (snd (assign_admin_role i t us rs)))
       = snd (assign_admin_role i t us rs)"
proof (intro conjI impI)
  assume "\<forall>x \<in> set us. auth_user_email x \<noteq> Some admin_email"
  then have "select_user_id_by_email us admin_email = None"
    by (simp add: select_user_id_None)
  then show "assign_admin_role i t us rs = (User_not_found admin_email, rs)"
    by (simp add: assign_admin_role_def)
next
  assume h: "(\<exists>x \<in> set us. auth_user_email x = Some admin_email) \<and> user_roles_unique rs"
  then have "select_user_id_by_email us admin_email \<noteq> None"
    by (simp add: select_user_id_None)
  then obtain u where u: "select_user_id_by_email us admin_email = Some u" by blast
  from select_user_id_Some [OF u] obtain x where
    x: "x \<in> set us" "auth_user_email x = Some admin_email" "auth_user_id x = u" by blast
  note e = assign_found [OF u, of i t rs]
  have uniq: "user_roles_unique (insert_role_on_conflict_do_nothing i t u ''admin'' rs)"
    using h by (simp add: insert_role_unique)
  then show "user_roles_unique (snd (assign_admin_role i t us rs))"
    by (simp add: e)
  have one: "grant_count (snd (assign_admin_role i t us rs)) (auth_user_id x) ''admin'' = 1"
    using uniq insert_role_grants [of u "''admin''" i t rs] x(3)
    by (simp add: e grant_count_unique)
  have others: "\<forall>v r. (v, r) \<noteq> (auth_user_id x, ''admin'') \<longrightarrow>
      grant_count (snd (assign_admin_role i t us rs)) v r = grant_count rs v r"
    using x(3) by (simp add: e insert_role_others)
  have shape: "snd (assign_admin_role i t us rs) = rs
      \<or> snd (assign_admin_role i t us rs)
         = rs @ [\<lparr>role_id = i, role_user_id = auth_user_id x, role = ''admin'',
                   role_created_at = Some t\<rparr>]"
    using x(3) by (simp add: e insert_role_on_conflict_do_nothing_def)
  from x(1,2) e one others shape
  show "\<exists>x \<in> set us. auth_user_email x = Some admin_email
         \<and> fst (assign_admin_role i t us rs) = Admin_role_assigned admin_email
         \<and> grant_count (snd (assign_admin_role i t us rs)) (auth_user_id x) ''admin'' = 1
         \<and> (\<forall>v r. (v, r) \<noteq> (auth_user_id x, ''admin'') \<longrightarrow>
              grant_count (snd (assign_admin_role i t us rs)) v r = grant_count rs v r)
         \<and> (snd (assign_admin_role i t us rs) = rs
            \<or> snd (assign_admin_role i t us rs)
               = rs @ [\<lparr>role_id = i, role_user_id = auth_user_id x, role = ''admin'',
                         role_created_at = Some t\<rparr>])"
    by (intro bexI [of _ x]) simp_all
next
  assume h: "y \<in> set us \<and> auth_user_email y = Some admin_email
        \<and> (\<forall>z \<in> set us. auth_user_email z = Some admin_email \<longrightarrow> auth_user_id z = auth_user_id y)
        \<and> user_roles_unique rs"
  then have "select_user_id_by_email us admin_email \<noteq> None"
    by (auto simp: select_user_id_None)
  then obtain u where u: "select_user_id_by_email us admin_email = Some u" by blast
  from select_user_id_Some [OF u] obtain x where
    x: "x \<in> set us" "auth_user_email x = Some admin_email" "auth_user_id x = u" by blast
  from h have "\<forall>z \<in> set us. auth_user_email z = Some admin_email
      \<longrightarrow> auth_user_id z = auth_user_id y" by (rule conjunct1 [OF conjunct2 [OF conjunct2]])
  with x have uy: "u = auth_user_id y" by blast
  have "user_roles_unique (insert_role_on_conflict_do_nothing i t u ''admin'' rs)"
    using h by (simp add: insert_role_unique)
  then show "grant_count (snd (assign_admin_role i t us rs)) (auth_user_id y) ''admin'' = 1"
    using insert_role_grants [of u "''admin''" i t rs] uy
    by (simp add: assign_found [OF u] grant_count_unique)
next
  assume fk: "user_roles_fk us rs"
  show "user_roles_fk us (snd (assign_admin_role i t us rs))"
  proof (cases "select_user_id_by_email us admin_email")
    case None
    with fk show ?thesis by (simp add: assign_admin_role_def)
  next
    case (Some u)
    from select_user_id_Some [OF Some] have "u \<in> set (map auth_user_id us)" by auto
    with fk show ?thesis by (simp add: assign_found [OF Some] insert_role_fk)
  qed
next
  show "snd (assign_admin_role i' t' us (snd (assign_admin_role i t us rs)))
       = snd (assign_admin_role i t us rs)"
    by (cases "select_user_id_by_email us admin_email")
       (simp_all add: assign_admin_role_def insert_role_again)
qed

text \<open>
  The scenario of the specification: a run while other accounts exist but none with the
  email, a run after the account was created, and a third run.
\<close>

theorem assign_admin_role_idempotent_witness:
  "user_roles_unique example_roles
   \<and> user_roles_fk example_users_before example_roles
   \<and> assign_admin_role ''n1'' 5 example_users_before example_roles
       = (User_not_found admin_email, example_roles)
   \<and> assign_admin_role ''n2'' 6 example_users example_roles
       = (Admin_role_assigned admin_email,
          example_roles @ [\<lparr>role_id = ''n2'', role_user_id = ''u7'', role = ''admin'',
                            role_created_at = Some 6\<rparr>])
   \<and> user_roles_fk example_users (snd (assign_admin_role ''n2'' 6 example_users example_roles))
   \<and> grant_count example_roles ''u7'' ''admin'' = 0
   \<and> grant_count (snd (assign_admin_role ''n2'' 6 example_users example_roles)) ''u7'' ''admin'' = 1
   \<and> grant_count (snd (assign_admin_role ''n2'' 6 example_users example_roles)) ''a1'' ''admin'' = 1
   \<and> snd (assign_admin_role ''n3'' 7 example_users
        (snd (assign_admin_role ''n2'' 6 example_users example_roles)))
       = snd (assign_admin_role ''n2'' 6 example_users example_roles)
   \<and> grant_count (snd (assign_admin_role ''n3'' 7 example_users
        (snd (assign_admin_role ''n2'' 6 example_users example_roles)))) ''u7'' ''admin'' = 1"
proof -
  let ?u7 = "\<lparr>auth_user_id = ''u7'', auth_user_email = Some ''akashakash200243@gmail.com''\<rparr>"
  have uniq: "user_roles_unique example_roles"
    by (simp add: user_roles_unique_def example_roles_def)
  have fk0: "user_roles_fk example_users_before example_roles"
    by (simp add: user_roles_fk_def example_roles_def example_users_before_def)
  have fk1: "user_roles_fk example_users example_roles"
    by (simp add: user_roles_fk_def example_roles_def example_users_def example_users_before_def)
  have none: "\<forall>x \<in> set example_users_before. auth_user_email x \<noteq> Some admin_email"
    by (simp add: example_users_before_def admin_email_def)
  have c1: "assign_admin_role ''n1'' 5 example_users_before example_roles
       = (User_not_found admin_email, example_roles)"
    using assign_admin_role_idempotent [where us = example_users_before and i = "''n1''"
        and t = 5 and rs = example_roles] none
    by blast
  have y: "?u7 \<in> set example_users \<and> auth_user_email ?u7 = Some admin_email
      \<and> (\<forall>z \<in> set example_users. auth_user_email z = Some admin_email
            \<longrightarrow> auth_user_id z = auth_user_id ?u7)"
    by (simp add: example_users_def example_users_before_def admin_email_def)
  have c2: "grant_count (snd (assign_admin_role ''n2'' 6 example_users example_roles))
      ''u7'' ''admin'' = 1"
    using assign_admin_role_idempotent [where us = example_users and i = "''n2''"
        and t = 6 and rs = example_roles and y = ?u7] y uniq
    by simp
  have c3: "user_roles_fk example_users
      (snd (assign_admin_role ''n2'' 6 example_users example_roles))"
    using assign_admin_role_idempotent [where us = example_users and i = "''n2''"
        and t = 6 and rs = example_roles] fk1
    by blast
  have c4: "snd (assign_admin_role ''n3'' 7 example_users
        (snd (assign_admin_role ''n2'' 6 example_users example_roles)))
       = snd (assign_admin_role ''n2'' 6 example_users example_roles)"
    using assign_admin_role_idempotent [where us = example_users and i = "''n2''"
        and t = 6 and rs = example_roles and i' = "''n3''" and t' = 7]
    by blast
  have c5: "assign_admin_role ''n2'' 6 example_users example_roles
       = (Admin_role_assigned admin_email,
          example_roles @ [\<lparr>role_id = ''n2'', role_user_id = ''u7'', role = ''admin'',
                            role_created_at = Some 6\<rparr>])"
    by (simp add: assign_admin_role_def select_user_id_by_email_def example_users_def
        example_users_before_def admin_email_def insert_role_on_conflict_do_nothing_def
        example_roles_def)
  have c6: "grant_count example_roles ''u7'' ''admin'' = 0"
    by (simp add: grant_count_def example_roles_def)
  have c7: "grant_count (snd (assign_admin_role ''n2'' 6 example_users example_roles))
      ''a1'' ''admin'' = 1"
    by (simp add: c5) (simp add: grant_count_def example_roles_def)
  from uniq fk0 c1 c5 c3 c6 c2 c7 c4 show ?thesis by simp
qed

section \<open>Row-level security: results\<close>

lemma sql_eq_Some_True: "sql_eq a (Some y) = Some True \<longleftrightarrow> a = Some y"
  by (auto simp: sql_eq_def split: option.splits)

lemma profiles_select:
  "rls_using profiles_policies SELECT req rs p \<longleftrightarrow>
     self_access req (profile_id p) \<or> admin_access req rs"
  by (auto simp: rls_using_def profiles_policies_def applicable_def expr_holds_def
      self_access_def admin_access_def sql_eq_Some_True)

lemma profiles_write:
  "c \<noteq> SELECT \<Longrightarrow> rls_using profiles_policies c req rs p \<longleftrightarrow> self_access req (profile_id p)"
  by (auto simp: rls_using_def profiles_policies_def applicable_def expr_holds_def
      self_access_def admin_access_def sql_eq_Some_True)

lemma profiles_check:
  "c \<noteq> SELECT \<Longrightarrow> rls_check profiles_policies c req rs p \<longleftrightarrow> self_access req (profile_id p)"
  by (auto simp: rls_check_def profiles_policies_def applicable_def expr_holds_def check_expr_def
      self_access_def admin_access_def sql_eq_Some_True)

lemma applications_select:
  "rls_using membership_applications_policies SELECT req rs a \<longleftrightarrow>
     self_access req (app_user_id a) \<or> admin_access req rs"
  by (auto simp: rls_using_def membership_applications_policies_def applicable_def expr_holds_def
      self_access_def admin_access_def sql_eq_Some_True)

lemma applications_insert:
  "rls_check membership_applications_policies INSERT req rs a \<longleftrightarrow>
     self_access req (app_user_id a) \<or> admin_access req rs"
  by (auto simp: rls_check_def membership_applications_policies_def applicable_def expr_holds_def
      check_expr_def self_access_def admin_access_def sql_eq_Some_True)

lemma applications_write:
  "c = UPDATE \<or> c = DELETE \<Longrightarrow>
     rls_using membership_applications_policies c req rs a \<longleftrightarrow> admin_access req rs"
  by (auto simp: rls_using_def membership_applications_policies_def applicable_def expr_holds_def
      self_access_def admin_access_def sql_eq_Some_True)

lemma applications_update_check:
  "rls_check membership_applications_policies UPDATE req rs a \<longleftrightarrow> admin_access req rs"
  by (auto simp: rls_check_def membership_applications_policies_def applicable_def expr_holds_def
      check_expr_def self_access_def admin_access_def sql_eq_Some_True)

lemma user_roles_using:
  "rls_using user_roles_policies c req rs r \<longleftrightarrow> admin_access req rs"
  by (auto simp: rls_using_def user_roles_policies_def applicable_def expr_holds_def
      admin_access_def)

lemma user_roles_check:
  "rls_check user_roles_policies c req rs r \<longleftrightarrow> admin_access req rs"
  by (auto simp: rls_check_def user_roles_policies_def applicable_def expr_holds_def
      check_expr_def admin_access_def)

lemma update_rows_untouched:
  "\<forall>row \<in> set tbl. \<not> rls_using ps UPDATE req rs row \<Longrightarrow> update_rows ps req rs wh upd tbl = Inr tbl"
  by (auto simp: update_rows_def reachable_def list_ex_iff map_idI)

lemma delete_rows_untouched:
  "\<forall>row \<in> set tbl. \<not> rls_using ps DELETE req rs row \<Longrightarrow> delete_rows ps req rs wh tbl = tbl"
  by (auto simp: delete_rows_def reachable_def)

text \<open>
  Claim C2, as the policies have it. Access to a row is the OR of the predicates of the
  policies declared for the operation, and these differ by table and operation. On
  \<open>profiles\<close>, the owner or an administrator may read a row, and only the owner may write
  it. On \<open>membership_applications\<close>, the owner or an administrator may read a row and
  insert one; only an administrator may update or delete. On \<open>user_roles\<close> only an
  administrator may do anything. Where no predicate holds, a read returns no such row
  and no error, an insert is refused, and an update or a delete leaves the rows as they
  are. So a session that is not an administrator's reads none of another identity's
  profiles or applications, and an administrator's session reads every row of both.
\<close>

theorem rls_access_by_policy:
  "(rls_using profiles_policies SELECT req rs p \<longleftrightarrow>
      self_access req (profile_id p) \<or> admin_access req rs)
   \<and> (c \<noteq> SELECT \<longrightarrow>
        (rls_using profiles_policies c req rs p \<longleftrightarrow> self_access req (profile_id p))
        \<and> (rls_check profiles_policies c req rs p \<longleftrightarrow> self_access req (profile_id p)))
   \<and> (rls_using membership_applications_policies SELECT req rs a \<longleftrightarrow>
        self_access req (app_user_id a) \<or> admin_access req rs)
   \<and> (rls_check membership_applications_policies INSERT req rs a \<longleftrightarrow>
        self_access req (app_user_id a) \<or> admin_access req rs)
   \<and> (c = UPDATE \<or> c = DELETE \<longrightarrow>
        (rls_using membership_applications_policies c req rs a \<longleftrightarrow> admin_access req rs))
   \<and> (rls_check membership_applications_policies UPDATE req rs a \<longleftrightarrow> admin_access req rs)
   \<and> (rls_using user_roles_policies c req rs r \<longleftrightarrow> admin_access req rs)
   \<and> (rls_check user_roles_policies c req rs r \<longleftrightarrow> admin_access req rs)
   \<and> (\<not> admin_access req rs \<and> (\<forall>x \<in> set ptbl. \<not> self_access req (profile_id x)) \<longrightarrow>
        select_rows profiles_policies req rs ptbl = [])
   \<and> (\<not> admin_access req rs \<and> (\<forall>x \<in> set atbl. \<not> self_access req (app_user_id x)) \<longrightarrow>
        select_rows membership_applications_policies req rs atbl = [])
   \<and> (admin_access req rs \<longrightarrow>
        select_rows profiles_policies req rs ptbl = ptbl
        \<and> select_rows membership_applications_policies req rs atbl = atbl)
   \<and> (\<not> rls_check ps INSERT req rs row \<longrightarrow> insert_row ps req rs row tbl = Inl Policy_violation)
   \<and> ((\<forall>x \<in> set tbl. \<not> rls_using ps UPDATE req rs x) \<longrightarrow>
        update_rows ps req rs wh upd tbl = Inr tbl)
   \<and> ((\<forall>x \<in> set tbl. \<not> rls_using ps DELETE req rs x) \<longrightarrow>
        delete_rows ps req rs wh tbl = tbl)"
proof (intro conjI impI)
  show "select_rows profiles_policies req rs ptbl = []"
    if "\<not> admin_access req rs \<and> (\<forall>x \<in> set ptbl. \<not> self_access req (profile_id x))"
    using that by (simp add: select_rows_def profiles_select filter_empty_conv)
  show "select_rows membership_applications_policies req rs atbl = []"
    if "\<not> admin_access req rs \<and> (\<forall>x \<in> set atbl. \<not> self_access req (app_user_id x))"
    using that by (simp add: select_rows_def applications_select filter_empty_conv)
  show "select_rows profiles_policies req rs ptbl = ptbl" if "admin_access req rs"
    using that by (simp add: select_rows_def profiles_select)
  show "select_rows membership_applications_policies req rs atbl = atbl" if "admin_access req rs"
    using that by (simp add: select_rows_def applications_select)
  show "insert_row ps req rs row tbl = Inl Policy_violation" if "\<not> rls_check ps INSERT req rs row"
    using that by (simp add: insert_row_def)
qed (simp_all add: profiles_select profiles_write profiles_check applications_select
    applications_insert applications_write applications_update_check user_roles_using
    user_roles_check update_rows_untouched delete_rows_untouched)

theorem rls_access_by_policy_witness:
  "\<not> admin_access member_request example_roles
   \<and> \<not> self_access member_request ''u2''
   \<and> select_rows profiles_policies member_request example_roles [example_profile ''u2'' ''B''] = []
   \<and> select_rows membership_applications_policies member_request example_roles
       [example_application ''x1'' ''u2'' (Some Pending) (Some 1)] = []
   \<and> insert_row membership_applications_policies member_request example_roles
       (example_application ''x2'' ''u2'' (Some Approved) (Some 2))
       [example_application ''x1'' ''u2'' (Some Pending) (Some 1)] = Inl Policy_violation
   \<and> update_rows membership_applications_policies member_request example_roles
       (\<lambda>a. app_id a = ''x1'') (\<lambda>a. a\<lparr>status := Some Approved\<rparr>)
       [example_application ''x1'' ''u2'' (Some Pending) (Some 1)]
       = Inr [example_application ''x1'' ''u2'' (Some Pending) (Some 1)]
   \<and> delete_rows membership_applications_policies member_request example_roles
       (\<lambda>a. app_id a = ''x1'') [example_application ''x1'' ''u2'' (Some Pending) (Some 1)]
       = [example_application ''x1'' ''u2'' (Some Pending) (Some 1)]"
  using rls_access_by_policy [of member_request example_roles "example_profile ''u2'' ''B''"
      UPDATE "example_application ''x2'' ''u2'' (Some Approved) (Some 2)" undefined
      "[example_profile ''u2'' ''B'']" "[example_application ''x1'' ''u2'' (Some Pending) (Some 1)]"
      membership_applications_policies "example_application ''x2'' ''u2'' (Some Approved) (Some 2)"
      "[example_application ''x1'' ''u2'' (Some Pending) (Some 1)]"
      "\<lambda>a. app_id a = ''x1''" "\<lambda>a. a\<lparr>status := Some Approved\<rparr>"]
    rls_access_by_policy [of member_request example_roles "example_profile ''u2'' ''B''"
      DELETE "example_application ''x1'' ''u2'' (Some Pending) (Some 1)" undefined
      "[example_profile ''u2'' ''B'']" "[example_application ''x1'' ''u2'' (Some Pending) (Some 1)]"
      membership_applications_policies "example_application ''x2'' ''u2'' (Some Approved) (Some 2)"
      "[example_application ''x1'' ''u2'' (Some Pending) (Some 1)]"
      "\<lambda>a. app_id a = ''x1''" "\<lambda>a. a\<lparr>status := Some Approved\<rparr>"]
  by (simp add: admin_access_def self_access_def member_request_def example_roles_def
      is_admin_def is_admin_rows_def example_profile_def example_application_def
      rls_using_def rls_check_def membership_applications_policies_def profiles_policies_def
      applicable_def expr_holds_def check_expr_def sql_eq_def)

text \<open>
  The claim as stated, that every operation is open to the owner or an administrator,
  fails three ways: an administrator cannot update another identity's profile, the owner
  cannot update an own application, and an identity cannot read its own role grants.
\<close>

theorem rls_or_of_both_counterexample:
  "admin_access admin_request example_roles
   \<and> \<not> rls_using profiles_policies UPDATE admin_request example_roles (example_profile ''u2'' ''B'')
   \<and> update_rows profiles_policies admin_request example_roles
       (\<lambda>p. profile_id p = ''u2'') (\<lambda>p. p\<lparr>phone := ''999''\<rparr>) [example_profile ''u2'' ''B'']
       = Inr [example_profile ''u2'' ''B'']
   \<and> self_access member_request ''u1''
   \<and> \<not> rls_using membership_applications_policies UPDATE member_request example_roles
         (example_application ''x3'' ''u1'' (Some Pending) (Some 3))
   \<and> self_access \<lparr>req_role = Authenticated, req_uid = Some ''u2''\<rparr> ''u2''
   \<and> select_rows user_roles_policies \<lparr>req_role = Authenticated, req_uid = Some ''u2''\<rparr>
       example_roles example_roles = []"
  by (simp add: admin_access_def self_access_def member_request_def admin_request_def
      example_roles_def is_admin_def is_admin_rows_def example_profile_def
      example_application_def rls_using_def profiles_policies_def
      membership_applications_policies_def user_roles_policies_def applicable_def
      expr_holds_def sql_eq_def update_rows_def reachable_def select_rows_def)

section \<open>The document store: results\<close>

lemma own_folder_holds:
  "own_folder req rs obj = Some True \<longleftrightarrow>
     object_bucket_id obj = ''aadhar-cards''
     \<and> req_uid req \<noteq> None \<and> array_first (foldername (object_name obj)) = req_uid req"
  by (auto simp: own_folder_def sql_and_def sql_eq_def split: option.splits)

lemma storage_insert:
  "rls_check storage_objects_policies INSERT req rs obj \<longleftrightarrow> owns_object req obj"
  by (auto simp: rls_check_def storage_objects_policies_def applicable_def expr_holds_def
      check_expr_def own_folder_holds owns_object_def)

lemma storage_select:
  "rls_using storage_objects_policies SELECT req rs obj \<longleftrightarrow> owns_object req obj"
  by (auto simp: rls_using_def storage_objects_policies_def applicable_def expr_holds_def
      own_folder_holds owns_object_def)

lemma storage_update:
  "rls_using storage_objects_policies UPDATE req rs obj \<longleftrightarrow> owns_object req obj"
  by (auto simp: rls_using_def storage_objects_policies_def applicable_def expr_holds_def
      own_folder_holds owns_object_def)

lemma storage_delete:
  "\<not> rls_using storage_objects_policies DELETE req rs obj"
  by (auto simp: rls_using_def storage_objects_policies_def applicable_def expr_holds_def)

lemma find_object_Some:
  "find_object objs b name = Some obj \<Longrightarrow> obj \<in> set objs \<and> object_bucket_id obj = b \<and> object_name obj = name"
  by (auto simp: find_object_def find_Some_iff)

lemma download_authenticated_owner:
  "download_authenticated req rs objs b name = Inr obj \<Longrightarrow> owns_object req obj \<and> object_name obj = name"
  unfolding download_authenticated_def
  by (auto split: option.splits dest!: find_object_Some simp: select_rows_def storage_select)

text \<open>
  Claim C7, as the bucket and its policies have it. The policies on \<open>storage.objects\<close>
  let an insert, a select and an update through exactly when the request is
  authenticated, the object is in the bucket \<open>aadhar-cards\<close> and the first segment of its
  name is the caller's identity; nothing lets a delete through, and being an administrator
  opens no object of another identity. A download over the authenticated route returns
  only an object in the caller's own folder. The bucket limits an object to 5 MiB and to
  the three content types JPEG, PNG and PDF, and an upload succeeds exactly when the
  caller owns the folder and the object is within both. The bucket is declared public,
  and the public route serves any object of it to any requester.
\<close>

theorem document_store_policies:
  "(rls_check storage_objects_policies INSERT req rs obj \<longleftrightarrow> owns_object req obj)
   \<and> (rls_using storage_objects_policies SELECT req rs obj \<longleftrightarrow> owns_object req obj)
   \<and> (rls_using storage_objects_policies UPDATE req rs obj \<longleftrightarrow> owns_object req obj)
   \<and> \<not> rls_using storage_objects_policies DELETE req rs obj
   \<and> (admin_access req rs \<and> array_first (foldername (object_name obj)) \<noteq> req_uid req \<longrightarrow>
        \<not> rls_check storage_objects_policies INSERT req rs obj
        \<and> \<not> rls_using storage_objects_policies SELECT req rs obj
        \<and> \<not> rls_using storage_objects_policies UPDATE req rs obj)
   \<and> (download_authenticated req rs objs b name = Inr obj \<longrightarrow>
        array_first (foldername name) = req_uid req)
   \<and> file_size_limit aadhar_cards = 5 * 1024 * 1024
   \<and> allowed_mime_types aadhar_cards = [''image/jpeg'', ''image/png'', ''application/pdf'']
   \<and> (object_bucket_id obj = ''aadhar-cards'' \<and> object_size obj > 5 * 1024 * 1024 \<longrightarrow>
        upload_object [aadhar_cards] req rs obj objs = Inl Payload_too_large)
   \<and> (upload_object [aadhar_cards] req rs obj objs = Inr objs' \<longrightarrow>
        objs' = objs @ [obj] \<and> owns_object req obj \<and> object_size obj \<le> 5 * 1024 * 1024
        \<and> object_mime_type obj \<in> {''image/jpeg'', ''image/png'', ''application/pdf''})
   \<and> (owns_object req obj \<and> object_size obj \<le> 5 * 1024 * 1024
        \<and> object_mime_type obj \<in> {''image/jpeg'', ''image/png'', ''application/pdf''} \<longrightarrow>
        upload_object [aadhar_cards] req rs obj objs = Inr (objs @ [obj]))
   \<and> bucket_public aadhar_cards
   \<and> (find_object objs ''aadhar-cards'' name = Some obj \<longrightarrow>
        download_public [aadhar_cards] req objs ''aadhar-cards'' name = Inr obj)"
proof (intro conjI impI)
  show "array_first (foldername name) = req_uid req"
    if "download_authenticated req rs objs b name = Inr obj"
    using download_authenticated_owner [OF that] by (auto simp: owns_object_def)
  show "upload_object [aadhar_cards] req rs obj objs = Inl Payload_too_large"
    if "object_bucket_id obj = ''aadhar-cards'' \<and> object_size obj > 5 * 1024 * 1024"
    using that by (simp add: upload_object_def aadhar_cards_def)
  assume u: "upload_object [aadhar_cards] req rs obj objs = Inr objs'"
  then show "objs' = objs @ [obj]" "owns_object req obj" "object_size obj \<le> 5 * 1024 * 1024"
    "object_mime_type obj \<in> {''image/jpeg'', ''image/png'', ''application/pdf''}"
    by (auto simp: upload_object_def aadhar_cards_def storage_insert split: if_splits)
next
  assume "owns_object req obj \<and> object_size obj \<le> 5 * 1024 * 1024
        \<and> object_mime_type obj \<in> {''image/jpeg'', ''image/png'', ''application/pdf''}"
  then show "upload_object [aadhar_cards] req rs obj objs = Inr (objs @ [obj])"
    by (auto simp: upload_object_def aadhar_cards_def storage_insert owns_object_def)
next
  assume "find_object objs ''aadhar-cards'' name = Some obj"
  then show "download_public [aadhar_cards] req objs ''aadhar-cards'' name = Inr obj"
    by (simp add: download_public_def aadhar_cards_def)
qed (simp_all add: storage_insert storage_select storage_update storage_delete owns_object_def
    aadhar_cards_def)

theorem document_store_policies_witness:
  "upload_object [aadhar_cards] member_request example_roles
       (example_card ''u1/big.pdf'' 6291456 ''application/pdf'') [] = Inl Payload_too_large
   \<and> owns_object member_request (example_card ''u1/card.pdf'' 2097152 ''application/pdf'')
   \<and> upload_object [aadhar_cards] member_request example_roles
       (example_card ''u1/card.pdf'' 2097152 ''application/pdf'') []
       = Inr [example_card ''u1/card.pdf'' 2097152 ''application/pdf'']
   \<and> admin_access admin_request example_roles
   \<and> array_first (foldername ''u1/card.pdf'') = Some ''u1''
   \<and> \<not> rls_using storage_objects_policies SELECT admin_request example_roles
         (example_card ''u1/card.pdf'' 2097152 ''application/pdf'')
   \<and> download_authenticated \<lparr>req_role = Authenticated, req_uid = Some ''u2''\<rparr> example_roles
       [example_card ''u1/card.pdf'' 2097152 ''application/pdf''] ''aadhar-cards'' ''u1/card.pdf''
       = Inl Object_not_found
   \<and> download_public [aadhar_cards] anon_request
       [example_card ''u1/card.pdf'' 2097152 ''application/pdf''] ''aadhar-cards'' ''u1/card.pdf''
       = Inr (example_card ''u1/card.pdf'' 2097152 ''application/pdf'')"
proof -
  let ?big = "example_card ''u1/big.pdf'' 6291456 ''application/pdf''"
  let ?card = "example_card ''u1/card.pdf'' 2097152 ''application/pdf''"
  have big: "object_bucket_id ?big = ''aadhar-cards'' \<and> object_size ?big > 5 * 1024 * 1024"
    by (simp add: example_card_def)
  have c1: "upload_object [aadhar_cards] member_request example_roles ?big [] = Inl Payload_too_large"
    using document_store_policies [where req = member_request and rs = example_roles
        and obj = ?big and objs = "[]"] big by blast
  have own: "owns_object member_request ?card"
    by (simp add: owns_object_def member_request_def example_card_def array_first_def
        foldername_def)
  have ok: "object_size ?card \<le> 5 * 1024 * 1024
      \<and> object_mime_type ?card \<in> {''image/jpeg'', ''image/png'', ''application/pdf''}"
    by (simp add: example_card_def)
  have c2: "upload_object [aadhar_cards] member_request example_roles ?card [] = Inr ([] @ [?card])"
    using document_store_policies [where req = member_request and rs = example_roles
        and obj = ?card and objs = "[]"] own ok by blast
  have adm: "admin_access admin_request example_roles"
    by (simp add: admin_access_def admin_request_def example_roles_def is_admin_def
        is_admin_rows_def)
  have seg: "array_first (foldername ''u1/card.pdf'') = Some ''u1''"
    by (simp add: array_first_def foldername_def)
  have other: "array_first (foldername (object_name ?card)) \<noteq> req_uid admin_request"
    by (simp add: example_card_def admin_request_def array_first_def foldername_def)
  have c3: "\<not> rls_using storage_objects_policies SELECT admin_request example_roles ?card"
    using document_store_policies [where req = admin_request and rs = example_roles
        and obj = ?card] adm other by blast
  have c4: "download_authenticated \<lparr>req_role = Authenticated, req_uid = Some ''u2''\<rparr>
      example_roles [?card] ''aadhar-cards'' ''u1/card.pdf'' = Inl Object_not_found"
    by (simp add: download_authenticated_def select_rows_def storage_select owns_object_def
        example_card_def array_first_def foldername_def find_object_def)
  have found: "find_object [?card] ''aadhar-cards'' ''u1/card.pdf'' = Some ?card"
    by (simp add: find_object_def example_card_def)
  have c5: "download_public [aadhar_cards] anon_request [?card] ''aadhar-cards'' ''u1/card.pdf''
      = Inr ?card"
    using document_store_policies [where req = anon_request and obj = ?card
        and objs = "[?card]" and name = "''u1/card.pdf''"] found by blast
  from c1 own c2 adm seg c3 c4 c5 show ?thesis by simp
qed

text \<open>
  The claim as stated, that an object under a prefix is readable only by the identity of
  the prefix, fails on the public route: another member, and a requester with no session,
  both read the card in the folder of \<open>u2\<close>.
\<close>

theorem document_store_public_read_counterexample:
  "req_uid member_request = Some ''u1''
   \<and> array_first (foldername ''u2/card.pdf'') = Some ''u2''
   \<and> download_public (create_bucket aadhar_cards []) member_request
       [example_card ''u2/card.pdf'' 2097152 ''application/pdf''] ''aadhar-cards'' ''u2/card.pdf''
       = Inr (example_card ''u2/card.pdf'' 2097152 ''application/pdf'')
   \<and> download_public (create_bucket aadhar_cards []) anon_request
       [example_card ''u2/card.pdf'' 2097152 ''application/pdf''] ''aadhar-cards'' ''u2/card.pdf''
       = Inr (example_card ''u2/card.pdf'' 2097152 ''application/pdf'')"
  by (simp add: member_request_def anon_request_def example_card_def array_first_def
      foldername_def download_public_def create_bucket_def aadhar_cards_def find_object_def)

section \<open>The admin route guard: results\<close>

lemma checkAdminStatus_loading: "loading (checkAdminStatus client st) = False"
  by (simp add: checkAdminStatus_def Let_def split: option.splits rpc_response.splits)

lemma checkAdminStatus_isAdmin:
  "isAdmin (checkAdminStatus client st) \<longleftrightarrow>
     (\<exists>s. getSession client = Some s \<and> rpc_is_admin client (user_id (session_user s)) = Rpc_data True)"
  by (auto simp: checkAdminStatus_def Let_def split: option.splits rpc_response.splits)

text \<open>
  Claim C3. After a run of the check, the guard renders the protected subtree exactly
  when there is a session and the \<open>is_admin\<close> call for its user returned true. With no
  session it redirects to the login page; with a session and any other outcome of the
  call, an error returned or thrown among them, it redirects as well. While the check
  runs it shows the loading indicator. The listener for authentication state changes runs
  the check again, and what the guard then renders is what a fresh check renders, whatever
  the state before. (A run is taken as a whole here, from its first to its last state
  update.)
\<close>

theorem admin_guard_fails_closed:
  "(AdminProtectedRoute (checkAdminStatus client st) = Outlet \<longleftrightarrow>
      (\<exists>s. getSession client = Some s
         \<and> rpc_is_admin client (user_id (session_user s)) = Rpc_data True))
   \<and> (getSession client = None \<longrightarrow>
        AdminProtectedRoute (checkAdminStatus client st) = Navigate ''/admin/login'')
   \<and> (getSession client = Some s
        \<and> rpc_is_admin client (user_id (session_user s)) \<noteq> Rpc_data True \<longrightarrow>
        AdminProtectedRoute (checkAdminStatus client st) = Navigate ''/admin/login'')
   \<and> (getSession client = Some s
        \<and> (rpc_is_admin client (user_id (session_user s)) = Rpc_error e
           \<or> rpc_is_admin client (user_id (session_user s)) = Rpc_threw e) \<longrightarrow>
        AdminProtectedRoute (checkAdminStatus client st) = Navigate ''/admin/login'')
   \<and> AdminProtectedRoute (st\<lparr>loading := True\<rparr>) = Loading_indicator
   \<and> AdminProtectedRoute (useAdminAuth_mount client)
       = AdminProtectedRoute (checkAdminStatus client st)
   \<and> AdminProtectedRoute (onAuthStateChange client s' st)
       = AdminProtectedRoute (checkAdminStatus client initial_admin_auth)"
proof (intro conjI impI)
  show "AdminProtectedRoute (checkAdminStatus client st) = Outlet \<longleftrightarrow>
      (\<exists>s. getSession client = Some s
         \<and> rpc_is_admin client (user_id (session_user s)) = Rpc_data True)"
    by (simp add: AdminProtectedRoute_def checkAdminStatus_loading checkAdminStatus_isAdmin)
  show "AdminProtectedRoute (checkAdminStatus client st) = Navigate ''/admin/login''"
    if "getSession client = None"
    using that
    by (simp add: AdminProtectedRoute_def checkAdminStatus_loading checkAdminStatus_isAdmin)
  show "AdminProtectedRoute (checkAdminStatus client st) = Navigate ''/admin/login''"
    if "getSession client = Some s
        \<and> rpc_is_admin client (user_id (session_user s)) \<noteq> Rpc_data True"
    using that
    by (simp add: AdminProtectedRoute_def checkAdminStatus_loading checkAdminStatus_isAdmin)
  show "AdminProtectedRoute (checkAdminStatus client st) = Navigate ''/admin/login''"
    if "getSession client = Some s
        \<and> (rpc_is_admin client (user_id (session_user s)) = Rpc_error e
           \<or> rpc_is_admin client (user_id (session_user s)) = Rpc_threw e)"
    using that
    by (auto simp: AdminProtectedRoute_def checkAdminStatus_loading checkAdminStatus_isAdmin)
  show "AdminProtectedRoute (st\<lparr>loading := True\<rparr>) = Loading_indicator"
    by (simp add: AdminProtectedRoute_def)
  show "AdminProtectedRoute (useAdminAuth_mount client)
       = AdminProtectedRoute (checkAdminStatus client st)"
    by (simp add: AdminProtectedRoute_def checkAdminStatus_loading checkAdminStatus_isAdmin
        useAdminAuth_mount_def)
  show "AdminProtectedRoute (onAuthStateChange client s' st)
       = AdminProtectedRoute (checkAdminStatus client initial_admin_auth)"
    by (simp add: AdminProtectedRoute_def checkAdminStatus_loading checkAdminStatus_isAdmin
        onAuthStateChange_def)
qed

theorem admin_guard_fails_closed_witness:
  "AdminProtectedRoute (checkAdminStatus (example_client (Some (example_session ''a1'')) (Rpc_data True))
      initial_admin_auth) = Outlet
   \<and> AdminProtectedRoute (checkAdminStatus (example_client None (Rpc_data True))
      initial_admin_auth) = Navigate ''/admin/login''
   \<and> AdminProtectedRoute (checkAdminStatus (example_client (Some (example_session ''u1'')) (Rpc_data False))
      initial_admin_auth) = Navigate ''/admin/login''
   \<and> AdminProtectedRoute (checkAdminStatus
      (example_client (Some (example_session ''a1'')) (Rpc_error ''timeout''))
      (useAdminAuth_mount (example_client (Some (example_session ''a1'')) (Rpc_data True))))
      = Navigate ''/admin/login''
   \<and> AdminProtectedRoute (onAuthStateChange (example_client None (Rpc_data True)) None
      (useAdminAuth_mount (example_client (Some (example_session ''a1'')) (Rpc_data True))))
      = Navigate ''/admin/login''"
proof -
  let ?admin = "example_client (Some (example_session ''a1'')) (Rpc_data True)"
  let ?none = "example_client None (Rpc_data True)"
  let ?member = "example_client (Some (example_session ''u1'')) (Rpc_data False)"
  let ?broken = "example_client (Some (example_session ''a1'')) (Rpc_error ''timeout'')"
  have "getSession ?admin = Some (example_session ''a1'')
      \<and> rpc_is_admin ?admin (user_id (session_user (example_session ''a1''))) = Rpc_data True"
    by (simp add: example_client_def)
  then have c1: "AdminProtectedRoute (checkAdminStatus ?admin initial_admin_auth) = Outlet"
    using admin_guard_fails_closed [where client = ?admin and st = initial_admin_auth]
    by blast
  have "getSession ?none = None"
    by (simp add: example_client_def)
  then have c2: "AdminProtectedRoute (checkAdminStatus ?none st) = Navigate ''/admin/login''" for st
    using admin_guard_fails_closed [where client = ?none and st = st] by blast
  have "getSession ?member = Some (example_session ''u1'')
      \<and> rpc_is_admin ?member (user_id (session_user (example_session ''u1''))) \<noteq> Rpc_data True"
    by (simp add: example_client_def)
  then have c3: "AdminProtectedRoute (checkAdminStatus ?member initial_admin_auth)
      = Navigate ''/admin/login''"
    using admin_guard_fails_closed [where client = ?member and st = initial_admin_auth
        and s = "example_session ''u1''"]
    by blast
  have "getSession ?broken = Some (example_session ''a1'')
      \<and> (rpc_is_admin ?broken (user_id (session_user (example_session ''a1''))) = Rpc_error ''timeout''
         \<or> rpc_is_admin ?broken (user_id (session_user (example_session ''a1''))) = Rpc_threw ''timeout'')"
    by (simp add: example_client_def)
  then have c4: "AdminProtectedRoute (checkAdminStatus ?broken st) = Navigate ''/admin/login''" for st
    using admin_guard_fails_closed [where client = ?broken and st = st
        and s = "example_session ''a1''" and e = "''timeout''"]
    by blast
  have c5: "AdminProtectedRoute (onAuthStateChange ?none None st) = Navigate ''/admin/login''" for st
    using admin_guard_fails_closed [where client = ?none and st = st and s' = None]
      c2 [of initial_admin_auth]
    by simp
  from c1 c2 c3 c4 c5 show ?thesis by simp
qed

section \<open>The admin login page: results\<close>

lemma handleLogin_not_admin_signs_out:
  "loginSchema is_email (login_email st) (login_password st) = [] \<Longrightarrow>
   signInWithPassword backend (trim (login_email st)) (login_password st) = Sign_in_data (Some u) \<Longrightarrow>
   login_rpc_is_admin backend (user_id u) = Rpc_data False \<Longrightarrow>
   live_session (handleLogin is_email backend st) = None
   \<and> toasts (handleLogin is_email backend st) = toasts st @
        [\<lparr>toast_title = ''Access Denied'',
          toast_description = ''You do not have permission to access the admin dashboard.'',
          toast_destructive = True\<rparr>]
   \<and> navigated (handleLogin is_email backend st) = navigated st"
  by (simp add: handleLogin_def)

lemma handleLogin_rpc_failure:
  "loginSchema is_email (login_email st) (login_password st) = [] \<Longrightarrow>
   signInWithPassword backend (trim (login_email st)) (login_password st) = Sign_in_data (Some u) \<Longrightarrow>
   login_rpc_is_admin backend (user_id u) = Rpc_error m \<or> login_rpc_is_admin backend (user_id u) = Rpc_threw m \<Longrightarrow>
   live_session (handleLogin is_email backend st) = Some u
   \<and> toasts (handleLogin is_email backend st) = toasts st @
        [\<lparr>toast_title = ''Login failed'',
          toast_description = (if m = [] then ''Please check your credentials.'' else m),
          toast_destructive = True\<rparr>]"
  by (auto simp: handleLogin_def login_failed_def)

text \<open>
  Claim C4 asks that a login which authenticates a caller who is not an administrator
  ends with the session terminated and an access-denied message, also when the role check
  itself fails. The handler signs out when the role check answers false
  (\<open>handleLogin_not_admin_signs_out\<close>). When the role check returns or throws an error, the
  handler reaches its \<open>catch\<close> branch, which reports a failed login and does not sign out
  (\<open>handleLogin_rpc_failure\<close>). The run below is that case: a member signs in with valid
  credentials, the role check times out, and afterwards the session is live and the
  message is \<open>Login failed\<close>; with the answer false in place of the error, the same
  sign-in ends with no session.
\<close>

theorem handleLogin_rpc_failure_keeps_session:
  "live_session (handleLogin (\<lambda>e. True)
      (example_backend (Sign_in_data (Some \<lparr>user_id = ''u1'', user_email = ''member@example.org''\<rparr>))
         (Rpc_error ''timeout''))
      (example_login_page ''member@example.org'' ''secret''))
     = Some \<lparr>user_id = ''u1'', user_email = ''member@example.org''\<rparr>
   \<and> toasts (handleLogin (\<lambda>e. True)
      (example_backend (Sign_in_data (Some \<lparr>user_id = ''u1'', user_email = ''member@example.org''\<rparr>))
         (Rpc_error ''timeout''))
      (example_login_page ''member@example.org'' ''secret''))
     = [\<lparr>toast_title = ''Login failed'', toast_description = ''timeout'', toast_destructive = True\<rparr>]
   \<and> live_session (handleLogin (\<lambda>e. True)
      (example_backend (Sign_in_data (Some \<lparr>user_id = ''u1'', user_email = ''member@example.org''\<rparr>))
         (Rpc_data False))
      (example_login_page ''member@example.org'' ''secret''))
     = None"
  by (simp add: handleLogin_def login_failed_def example_backend_def example_login_page_def
      loginSchema_def)

section \<open>The data-access functions: results\<close>

lemma length_window_page:
  "0 \<le> f \<Longrightarrow> int (length (window (Some (f, f + 10 - 1)) xs)) = min 10 (max 0 (int (length xs) - f))"
  by (auto simp: window_def)

lemma length_by_created_at_desc: "length (by_created_at_desc rows) = length rows"
  by (simp add: by_created_at_desc_def)

lemma set_by_created_at_desc: "set (by_created_at_desc rows) = set rows"
  by (simp add: by_created_at_desc_def)

lemma window_page:
  "1 \<le> page \<Longrightarrow>
     window (Some ((page - 1) * 10, (page - 1) * 10 + 10 - 1)) xs
       = take 10 (drop (nat (10 * (page - 1))) xs)"
  by (simp add: window_def mult.commute)

lemma run_range_query:
  "0 \<le> f \<Longrightarrow> q_eq_status q = None \<or> (\<exists>s. q_eq_status q = Some s \<and> status_of_label s \<noteq> None) \<Longrightarrow>
   q_limit q = None \<Longrightarrow> q_count_exact q \<Longrightarrow>
   run_applications_query req db None (range_rows f t (order_created_at_desc q))
     = Inr (window (Some (f, t))
              (by_created_at_desc (matching_applications req db
                 (case q_eq_status q of None \<Rightarrow> None | Some s \<Rightarrow> status_of_label s))),
            Some (length (matching_applications req db
                 (case q_eq_status q of None \<Rightarrow> None | Some s \<Rightarrow> status_of_label s))))"
  by (auto simp: run_applications_query_def range_rows_def order_created_at_desc_def
      limited_def Let_def split: option.splits)

lemma run_page_query:
  assumes "1 \<le> page"
    and "q_eq_status q = None \<or> (\<exists>s. q_eq_status q = Some s \<and> status_of_label s \<noteq> None)"
    and "q_limit q = None" and "q_count_exact q"
  shows "run_applications_query req db None
       (range_rows ((page - 1) * 10) ((page - 1) * 10 + 10 - 1) (order_created_at_desc q))
     = Inr (take 10 (drop (nat (10 * (page - 1)))
              (by_created_at_desc (matching_applications req db
                 (case q_eq_status q of None \<Rightarrow> None | Some s \<Rightarrow> status_of_label s)))),
            Some (length (matching_applications req db
                 (case q_eq_status q of None \<Rightarrow> None | Some s \<Rightarrow> status_of_label s))))"
proof -
  from assms(1) have "0 \<le> (page - 1) * 10" by simp
  from run_range_query [OF this assms(2-4)] show ?thesis
    by (simp only: window_page [OF assms(1)])
qed

lemma status_of_label_all: "status_of_label ''all'' = None"
  by (simp add: status_of_label_def)

lemma fetchApplications_contract:
  assumes "1 \<le> page" and "st = ''all'' \<or> status_of_label st \<noteq> None"
  shows "fetchApplications req db None page st
     = Inr (map (application_item_of req db) (fst (paginated_contract req db page (status_of_label st))),
            snd (paginated_contract req db page (status_of_label st)))"
proof (cases "st = ''all''")
  case True
  then show ?thesis
    using run_page_query [of page "from_membership_applications True" req db] assms(1)
    by (simp add: fetchApplications_def ITEMS_PER_PAGE_def Let_def paginated_contract_def
        status_of_label_all from_membership_applications_def)
next
  case False
  with assms(2) have v: "status_of_label st \<noteq> None" by simp
  show ?thesis
    using run_page_query [of page "eq_status st (from_membership_applications True)" req db]
      assms(1) v False
    by (simp add: fetchApplications_def ITEMS_PER_PAGE_def Let_def paginated_contract_def
        eq_status_def from_membership_applications_def)
qed

lemma status_of_label_approved: "status_of_label ''approved'' = Some Approved"
  by (simp add: status_of_label_def)

lemma fetchMembers_contract:
  assumes "1 \<le> page"
  shows "fetchMembers req db None page
     = Inr (map (member_item_of req db) (fst (paginated_contract req db page (Some Approved))),
            snd (paginated_contract req db page (Some Approved)))"
  using run_page_query [of page "eq_status ''approved'' (from_membership_applications True)" req db]
    assms
  by (simp add: fetchMembers_def ITEMS_PER_PAGE_def Let_def paginated_contract_def
      eq_status_def from_membership_applications_def status_of_label_approved)

lemma length_contract_page:
  "1 \<le> page \<Longrightarrow>
     int (length (fst (paginated_contract req db page flt)))
       = min 10 (max 0 (int (length (matching_applications req db flt)) - 10 * (page - 1)))"
  by (auto simp: paginated_contract_def Let_def length_by_created_at_desc)

lemma fetch_fault:
  "fetchApplications req db (Some e) page st = Inl e"
  "fetchMembers req db (Some e) page = Inl e"
  by (simp_all add: fetchApplications_def fetchMembers_def run_applications_query_def Let_def)


lemma set_contract_page:
  "set (fst (paginated_contract req db page flt)) \<subseteq> set (matching_applications req db flt)"
proof -
  have "set (fst (paginated_contract req db page flt))
      \<subseteq> set (by_created_at_desc (matching_applications req db flt))"
    unfolding paginated_contract_def Let_def fst_conv
    by (meson set_take_subset set_drop_subset subset_trans)
  then show ?thesis by (simp add: set_by_created_at_desc)
qed

lemma matching_approved:
  "a \<in> set (matching_applications req db (Some st)) \<Longrightarrow>
     a \<in> set (membership_applications db) \<and> status a = Some st"
  by (simp add: matching_applications_def select_rows_def)

lemma matching_admin:
  "admin_access req (user_roles db) \<Longrightarrow>
     matching_applications req db flt
       = (case flt of None \<Rightarrow> membership_applications db
          | Some st \<Rightarrow> filter (\<lambda>a. status a = Some st) (membership_applications db))"
  by (simp add: matching_applications_def select_rows_def applications_select Let_def)

lemma beyond_last_page:
  "((n::int) + 9) div 10 < page \<Longrightarrow> n - 10 * (page - 1) \<le> 0"
  by presburger

lemma example_db_admin: "admin_access admin_request (user_roles example_db)"
  by (simp add: admin_access_def admin_request_def example_db_def example_roles_def
      is_admin_def is_admin_rows_def)

lemma example_db_all:
  "matching_applications admin_request example_db None = example_applications"
  by (simp add: matching_admin [OF example_db_admin]) (simp add: example_db_def)

lemma example_db_rejected:
  "matching_applications admin_request example_db (Some Rejected)
     = [example_application ''x4'' ''u2'' (Some Rejected) (Some 4),
        example_application ''x9'' ''u1'' (Some Rejected) (Some 9)]"
  by (simp add: matching_admin [OF example_db_admin])
     (simp add: example_db_def example_applications_def example_application_def)

text \<open>
  Claim C5. For a page number of at least 1 and a request the backend answers, the
  application list (with the filter \<open>all\<close> or a label of the enumeration) and the member
  list return the total count \<open>N\<close> of the rows the caller may read that match the filter,
  and exactly \<open>min(10, max(0, N - 10 * (page - 1)))\<close> rows. A page beyond \<open>ceil(N / 10)\<close>
  returns no rows and no error, and so does any page of an empty dataset, with count 0.
\<close>

theorem paginated_fetch_window:
  "(1 \<le> page \<and> (st = ''all'' \<or> status_of_label st \<noteq> None) \<longrightarrow>
      (\<exists>items. fetchApplications req db None page st
           = Inr (items, length (matching_applications req db (status_of_label st)))
         \<and> int (length items)
           = min 10 (max 0 (int (length (matching_applications req db (status_of_label st)))
                              - 10 * (page - 1)))
         \<and> ((int (length (matching_applications req db (status_of_label st))) + 9) div 10 < page
              \<longrightarrow> items = [])
         \<and> (matching_applications req db (status_of_label st) = [] \<longrightarrow> items = [])))
   \<and> (1 \<le> page \<longrightarrow>
      (\<exists>members. fetchMembers req db None page
           = Inr (members, length (matching_applications req db (Some Approved)))
         \<and> int (length members)
           = min 10 (max 0 (int (length (matching_applications req db (Some Approved)))
                              - 10 * (page - 1)))
         \<and> ((int (length (matching_applications req db (Some Approved))) + 9) div 10 < page
              \<longrightarrow> members = [])
         \<and> (matching_applications req db (Some Approved) = [] \<longrightarrow> members = [])))"
proof (intro conjI impI)
  assume h: "1 \<le> page \<and> (st = ''all'' \<or> status_of_label st \<noteq> None)"
  let ?n = "length (matching_applications req db (status_of_label st))"
  let ?items = "map (application_item_of req db)
      (fst (paginated_contract req db page (status_of_label st)))"
  have e: "fetchApplications req db None page st = Inr (?items, ?n)"
    using fetchApplications_contract [of page st req db] h
    by (simp add: paginated_contract_def Let_def)
  have l: "int (length ?items) = min 10 (max 0 (int ?n - 10 * (page - 1)))"
    using length_contract_page [of page req db "status_of_label st"] h by simp
  have b: "(int ?n + 9) div 10 < page \<longrightarrow> ?items = []"
  proof
    assume "(int ?n + 9) div 10 < page"
    then have "int ?n - 10 * (page - 1) \<le> 0" by (rule beyond_last_page)
    with l have "int (length ?items) = 0" by simp
    then show "?items = []" by simp
  qed
  have z: "matching_applications req db (status_of_label st) = [] \<longrightarrow> ?items = []"
    using set_contract_page [of req db page "status_of_label st"] by auto
  from e l b z
  show "\<exists>items. fetchApplications req db None page st = Inr (items, ?n)
         \<and> int (length items) = min 10 (max 0 (int ?n - 10 * (page - 1)))
         \<and> ((int ?n + 9) div 10 < page \<longrightarrow> items = [])
         \<and> (matching_applications req db (status_of_label st) = [] \<longrightarrow> items = [])"
    by blast
next
  assume h: "1 \<le> page"
  let ?n = "length (matching_applications req db (Some Approved))"
  let ?items = "map (member_item_of req db)
      (fst (paginated_contract req db page (Some Approved)))"
  have e: "fetchMembers req db None page = Inr (?items, ?n)"
    using fetchMembers_contract [of page req db] h
    by (simp add: paginated_contract_def Let_def)
  have l: "int (length ?items) = min 10 (max 0 (int ?n - 10 * (page - 1)))"
    using length_contract_page [of page req db "Some Approved"] h by simp
  have b: "(int ?n + 9) div 10 < page \<longrightarrow> ?items = []"
  proof
    assume "(int ?n + 9) div 10 < page"
    then have "int ?n - 10 * (page - 1) \<le> 0" by (rule beyond_last_page)
    with l have "int (length ?items) = 0" by simp
    then show "?items = []" by simp
  qed
  have z: "matching_applications req db (Some Approved) = [] \<longrightarrow> ?items = []"
    using set_contract_page [of req db page "Some Approved"] by auto
  from e l b z
  show "\<exists>members. fetchMembers req db None page = Inr (members, ?n)
         \<and> int (length members) = min 10 (max 0 (int ?n - 10 * (page - 1)))
         \<and> ((int ?n + 9) div 10 < page \<longrightarrow> members = [])
         \<and> (matching_applications req db (Some Approved) = [] \<longrightarrow> members = [])"
    by blast
qed

theorem paginated_fetch_window_witness:
  "(\<exists>items. fetchApplications admin_request example_db None 2 ''all'' = Inr (items, 12)
      \<and> int (length items) = 2)
   \<and> (\<exists>items. fetchApplications admin_request example_db None 3 ''all'' = Inr (items, 12)
      \<and> items = [])
   \<and> (\<exists>items. fetchApplications admin_request example_db None 1 ''rejected'' = Inr (items, 2)
      \<and> int (length items) = 2)
   \<and> (\<exists>members. fetchMembers admin_request (example_db\<lparr>membership_applications := []\<rparr>) None 1
        = Inr (members, 0) \<and> members = [])"
proof -
  have n: "length (matching_applications admin_request example_db (status_of_label ''all'')) = 12"
    by (simp add: status_of_label_all example_db_all) (simp add: example_applications_def)
  have c1: "\<exists>items. fetchApplications admin_request example_db None 2 ''all'' = Inr (items, 12)
      \<and> int (length items) = 2"
    using paginated_fetch_window [of 2 "''all''" admin_request example_db] n by auto
  have c2: "\<exists>items. fetchApplications admin_request example_db None 3 ''all'' = Inr (items, 12)
      \<and> items = []"
    using paginated_fetch_window [of 3 "''all''" admin_request example_db] n by auto
  have r: "status_of_label ''rejected'' = Some Rejected"
    by (simp add: status_of_label_def)
  have c3: "\<exists>items. fetchApplications admin_request example_db None 1 ''rejected'' = Inr (items, 2)
      \<and> int (length items) = 2"
    using paginated_fetch_window [of 1 "''rejected''" admin_request example_db]
    by (auto simp: r example_db_rejected)
  have e: "matching_applications admin_request (example_db\<lparr>membership_applications := []\<rparr>)
      (Some Approved) = []"
    by (simp add: matching_applications_def select_rows_def)
  have c4: "\<exists>members. fetchMembers admin_request (example_db\<lparr>membership_applications := []\<rparr>) None 1
        = Inr (members, 0) \<and> members = []"
    using paginated_fetch_window [of 1 "''all''" admin_request
        "example_db\<lparr>membership_applications := []\<rparr>"]
    by (auto simp: e)
  from c1 c2 c3 c4 show ?thesis by blast
qed

lemma fetchRecentApplications_rows:
  "\<exists>items. fetchRecentApplications req db None None = Inr items
     \<and> map recent_id items = map app_id (take 5 (by_created_at_desc (matching_applications req db None)))
     \<and> length items = min 5 (length (matching_applications req db None))"
  by (simp add: fetchRecentApplications_def run_applications_query_def limit_rows_def
      order_created_at_desc_def from_membership_applications_def select_profiles_in_def
      limited_def window_def Let_def comp_def length_by_created_at_desc)

lemma sorted_contract_page:
  "sorted (map (\<lambda>a. map_option uminus (app_created_at a)) (fst (paginated_contract req db page flt)))"
proof -
  have "sorted (map (\<lambda>a. map_option uminus (app_created_at a))
      (by_created_at_desc (matching_applications req db flt)))"
    by (simp add: by_created_at_desc_def)
  then show ?thesis
    by (simp add: paginated_contract_def Let_def take_map [symmetric] drop_map [symmetric]
        sorted_wrt_take sorted_wrt_drop del: take_map drop_map)
qed

lemma map_of_key_find:
  "map_of (map (\<lambda>x. (f x, g x)) xs) k = map_option g (find (\<lambda>x. f x = k) xs)"
  by (induction xs) auto

lemma find_filter_implied:
  "(\<And>x. Q x \<Longrightarrow> P x) \<Longrightarrow> find Q (filter P xs) = find Q xs"
  by (induction xs) auto

lemma profilesMap_lookup:
  assumes "k \<in> S"
  shows "map_of (rev (map (\<lambda>p. (profile_id p, profile_id p, full_name p, email p))
            (filter (\<lambda>p. profile_id p \<in> S) ps))) k
     = map_option (\<lambda>p. (profile_id p, full_name p, email p))
         (find (\<lambda>p. profile_id p = k) (rev ps))"
proof -
  have "rev (map (\<lambda>p. (profile_id p, profile_id p, full_name p, email p))
            (filter (\<lambda>p. profile_id p \<in> S) ps))
      = map (\<lambda>p. (profile_id p, (profile_id p, full_name p, email p)))
          (filter (\<lambda>p. profile_id p \<in> S) (rev ps))"
    by (simp add: rev_map rev_filter)
  moreover have "find (\<lambda>p. profile_id p = k) (filter (\<lambda>p. profile_id p \<in> S) (rev ps))
      = find (\<lambda>p. profile_id p = k) (rev ps)"
    using assms by (intro find_filter_implied) simp
  ultimately show ?thesis
    by (simp add: map_of_key_find)
qed

lemma find_append_first:
  "find P (xs @ ys) = (case find P xs of None \<Rightarrow> find P ys | Some x \<Rightarrow> Some x)"
  by (induction xs) auto

lemma find_rev_distinct:
  "distinct (map f xs) \<Longrightarrow> find (\<lambda>x. f x = k) (rev xs) = find (\<lambda>x. f x = k) xs"
proof (induction xs)
  case Nil
  then show ?case by simp
next
  case (Cons x xs)
  then have ih: "find (\<lambda>x. f x = k) (rev xs) = find (\<lambda>x. f x = k) xs" by simp
  show ?case
  proof (cases "f x = k")
    case True
    with Cons.prems have "k \<notin> f ` set xs" by simp
    then have "\<forall>y \<in> set xs. f y \<noteq> k" by blast
    then have "find (\<lambda>x. f x = k) (rev xs) = None" by (simp add: find_None_iff)
    with True show ?thesis by (simp add: find_append_first)
  next
    case False
    with ih show ?thesis by (simp add: find_append_first split: option.splits)
  qed
qed

lemma fetchRecentApplications_items:
  "fetchRecentApplications req db None None
     = Inr (map (\<lambda>a.
         \<lparr>recent_id = app_id a, recent_created_at = app_created_at a,
          recent_membership_type = app_membership_type a, recent_status = status a,
          recent_user_id = app_user_id a,
          recent_profile =
            map_option (\<lambda>p. (profile_id p, full_name p, email p))
              (find (\<lambda>p. profile_id p = app_user_id a)
                 (rev (select_rows profiles_policies req (user_roles db) (profiles db))))\<rparr>)
        (take 5 (by_created_at_desc (matching_applications req db None))))"
proof -
  let ?apps = "take 5 (by_created_at_desc (matching_applications req db None))"
  let ?ps = "select_rows profiles_policies req (user_roles db) (profiles db)"
  have q: "run_applications_query req db None
      (limit_rows 5 (order_created_at_desc (from_membership_applications False)))
      = Inr (?apps, None)"
    by (simp add: run_applications_query_def limit_rows_def order_created_at_desc_def
        from_membership_applications_def limited_def window_def Let_def)
  have look: "map_of (rev (map (\<lambda>p. (profile_id p, profile_id p, full_name p, email p))
               (filter (\<lambda>p. profile_id p \<in> app_user_id ` set ?apps) ?ps))) (app_user_id a)
     = map_option (\<lambda>p. (profile_id p, full_name p, email p))
         (find (\<lambda>p. profile_id p = app_user_id a) (rev ?ps))"
    if "a \<in> set ?apps" for a
    using that by (intro profilesMap_lookup) simp
  show ?thesis
    unfolding fetchRecentApplications_def q select_profiles_in_def Let_def
    by (simp cong: map_cong add: look)
qed

lemma fetchRecentApplications_faults:
  "fetchRecentApplications req db (Some e) fault2 = Inl e"
  "fetchRecentApplications req db None (Some e) = Inl e"
  by (simp_all add: fetchRecentApplications_def run_applications_query_def limit_rows_def
      order_created_at_desc_def from_membership_applications_def select_profiles_in_def Let_def)

lemma recent_profile_embedded:
  assumes "distinct (map profile_id (profiles db))"
  shows "find (\<lambda>p. profile_id p = app_user_id a)
        (rev (select_rows profiles_policies req (user_roles db) (profiles db)))
     = first_if_array (embed_profile req db a)"
proof -
  have "distinct (map profile_id (select_rows profiles_policies req (user_roles db) (profiles db)))"
    using assms by (simp add: select_rows_def distinct_map_filter)
  from find_rev_distinct [OF this] show ?thesis
    by (simp add: embed_profile_def first_if_array_def)
qed


lemma example_db_profiles:
  "select_rows profiles_policies admin_request (user_roles example_db) (profiles example_db)
     = [example_profile ''u1'' ''A'', example_profile ''u2'' ''B'']"
  using example_db_admin by (simp add: select_rows_def profiles_select) (simp add: example_db_def)

text \<open>
  Claim C8, as the three call sites have it. The application list is the contract of
  section 4.4: for a page of at least 1 and the filter \<open>all\<close> or a label, it returns the
  contract's window and count for that page and filter. The member list is the contract
  with the filter fixed to \<open>approved\<close>. The window is ordered by creation time, latest
  first. The recent-applications widget takes no page and no filter and asks for no count:
  it returns the five latest applications the caller may read, each with the columns it
  selects and with the profile \<open>(id, full_name, email)\<close> of its owner among the profiles
  the caller may read (the last one with that identifier, null when there is none). With
  profile identifiers unique, as the primary key makes them, that profile is the one an
  embedded join gives. The profiles come from a second request: the widget fails when the
  first request fails, and also when the first succeeds and the second fails.
\<close>

theorem paginated_contract_call_sites:
  "(1 \<le> page \<and> (st = ''all'' \<or> status_of_label st \<noteq> None) \<longrightarrow>
      fetchApplications req db None page st
        = Inr (map (application_item_of req db)
                 (fst (paginated_contract req db page (status_of_label st))),
               snd (paginated_contract req db page (status_of_label st))))
   \<and> (1 \<le> page \<longrightarrow>
      fetchMembers req db None page
        = Inr (map (member_item_of req db) (fst (paginated_contract req db page (Some Approved))),
               snd (paginated_contract req db page (Some Approved))))
   \<and> sorted (map (\<lambda>a. map_option uminus (app_created_at a))
        (fst (paginated_contract req db page flt)))
   \<and> (\<exists>items. fetchRecentApplications req db None None = Inr items
        \<and> map recent_id items
          = map app_id (take 5 (by_created_at_desc (matching_applications req db None)))
        \<and> length items = min 5 (length (matching_applications req db None)))
   \<and> fetchRecentApplications req db None None
       = Inr (map (\<lambda>a.
           \<lparr>recent_id = app_id a, recent_created_at = app_created_at a,
            recent_membership_type = app_membership_type a, recent_status = status a,
            recent_user_id = app_user_id a,
            recent_profile =
              map_option (\<lambda>p. (profile_id p, full_name p, email p))
                (find (\<lambda>p. profile_id p = app_user_id a)
                   (rev (select_rows profiles_policies req (user_roles db) (profiles db))))\<rparr>)
          (take 5 (by_created_at_desc (matching_applications req db None))))
   \<and> (distinct (map profile_id (profiles db)) \<longrightarrow>
        fetchRecentApplications req db None None
          = Inr (map (\<lambda>a.
              \<lparr>recent_id = app_id a, recent_created_at = app_created_at a,
               recent_membership_type = app_membership_type a, recent_status = status a,
               recent_user_id = app_user_id a,
               recent_profile =
                 map_option (\<lambda>p. (profile_id p, full_name p, email p))
                   (first_if_array (embed_profile req db a))\<rparr>)
             (take 5 (by_created_at_desc (matching_applications req db None)))))
   \<and> fetchRecentApplications req db (Some e) fault2 = Inl e
   \<and> fetchRecentApplications req db None (Some e) = Inl e"
proof (intro conjI impI)
  show "fetchApplications req db None page st
        = Inr (map (application_item_of req db)
                 (fst (paginated_contract req db page (status_of_label st))),
               snd (paginated_contract req db page (status_of_label st)))"
    if "1 \<le> page \<and> (st = ''all'' \<or> status_of_label st \<noteq> None)"
    using that fetchApplications_contract [of page st req db] by blast
  show "fetchMembers req db None page
        = Inr (map (member_item_of req db) (fst (paginated_contract req db page (Some Approved))),
               snd (paginated_contract req db page (Some Approved)))"
    if "1 \<le> page"
    using that by (rule fetchMembers_contract)
  show "sorted (map (\<lambda>a. map_option uminus (app_created_at a))
        (fst (paginated_contract req db page flt)))"
    by (rule sorted_contract_page)
  show "\<exists>items. fetchRecentApplications req db None None = Inr items
        \<and> map recent_id items
          = map app_id (take 5 (by_created_at_desc (matching_applications req db None)))
        \<and> length items = min 5 (length (matching_applications req db None))"
    by (rule fetchRecentApplications_rows)
  show "fetchRecentApplications req db None None
       = Inr (map (\<lambda>a.
           \<lparr>recent_id = app_id a, recent_created_at = app_created_at a,
            recent_membership_type = app_membership_type a, recent_status = status a,
            recent_user_id = app_user_id a,
            recent_profile =
              map_option (\<lambda>p. (profile_id p, full_name p, email p))
                (find (\<lambda>p. profile_id p = app_user_id a)
                   (rev (select_rows profiles_policies req (user_roles db) (profiles db))))\<rparr>)
          (take 5 (by_created_at_desc (matching_applications req db None))))"
    by (rule fetchRecentApplications_items)
  show "fetchRecentApplications req db None None
          = Inr (map (\<lambda>a.
              \<lparr>recent_id = app_id a, recent_created_at = app_created_at a,
               recent_membership_type = app_membership_type a, recent_status = status a,
               recent_user_id = app_user_id a,
               recent_profile =
                 map_option (\<lambda>p. (profile_id p, full_name p, email p))
                   (first_if_array (embed_profile req db a))\<rparr>)
             (take 5 (by_created_at_desc (matching_applications req db None))))"
    if "distinct (map profile_id (profiles db))"
    by (simp only: fetchRecentApplications_items recent_profile_embedded [OF that])
  show "fetchRecentApplications req db (Some e) fault2 = Inl e"
    by (rule fetchRecentApplications_faults)
  show "fetchRecentApplications req db None (Some e) = Inl e"
    by (rule fetchRecentApplications_faults)
qed

theorem paginated_contract_call_sites_witness:
  "map_sum id (\<lambda>(items, count). (map item_id items, count))
       (fetchApplications admin_request example_db None 2 ''all'')
     = Inr ([''x2'', ''x1''], 12)
   \<and> map app_id (fst (paginated_contract admin_request example_db 2 None)) = [''x2'', ''x1'']
   \<and> snd (paginated_contract admin_request example_db 2 None) = 12
   \<and> map_sum id (\<lambda>(members, count). (map member_id members, count))
       (fetchMembers admin_request example_db None 1)
     = Inr ([''x12'', ''x10'', ''x8'', ''x7'', ''x5'', ''x3'', ''x2''], 7)
   \<and> map_sum id (map (\<lambda>item. (recent_id item, recent_profile item)))
       (fetchRecentApplications admin_request example_db None None)
     = Inr [(''x12'', Some (''u2'', ''B'', ''B@example.org'')),
            (''x11'', Some (''u1'', ''A'', ''A@example.org'')),
            (''x10'', Some (''u2'', ''B'', ''B@example.org'')),
            (''x9'', Some (''u1'', ''A'', ''A@example.org'')),
            (''x8'', Some (''u2'', ''B'', ''B@example.org''))]
   \<and> fetchRecentApplications admin_request example_db None (Some (Request_failed ''offline''))
     = Inl (Request_failed ''offline'')"
proof -
  have p2: "map app_id (fst (paginated_contract admin_request example_db 2 None)) = [''x2'', ''x1'']
      \<and> snd (paginated_contract admin_request example_db 2 None) = 12"
    by (simp add: paginated_contract_def Let_def example_db_all)
       (simp add: example_applications_def example_application_def by_created_at_desc_def)
  have pm: "map app_id (fst (paginated_contract admin_request example_db 1 (Some Approved)))
        = [''x12'', ''x10'', ''x8'', ''x7'', ''x5'', ''x3'', ''x2'']
      \<and> snd (paginated_contract admin_request example_db 1 (Some Approved)) = 7"
    by (simp add: paginated_contract_def Let_def matching_admin [OF example_db_admin])
       (simp add: example_db_def example_applications_def example_application_def
          by_created_at_desc_def)
  have page2: "(1::int) \<le> 2 \<and> (''all'' = ''all'' \<or> status_of_label ''all'' \<noteq> None)"
    by simp
  have c1: "map_sum id (\<lambda>(items, count). (map item_id items, count))
       (fetchApplications admin_request example_db None 2 ''all'') = Inr ([''x2'', ''x1''], 12)"
  proof -
    from paginated_contract_call_sites [where page = 2 and st = "''all''"
        and req = admin_request and db = example_db, THEN conjunct1, THEN mp, OF page2]
    have "fetchApplications admin_request example_db None 2 ''all''
        = Inr (map (application_item_of admin_request example_db)
                 (fst (paginated_contract admin_request example_db 2 (status_of_label ''all''))),
               snd (paginated_contract admin_request example_db 2 (status_of_label ''all'')))" .
    with p2 show ?thesis
      by (simp add: status_of_label_all comp_def application_item_of_def)
  qed
  have c2: "map_sum id (\<lambda>(members, count). (map member_id members, count))
       (fetchMembers admin_request example_db None 1)
     = Inr ([''x12'', ''x10'', ''x8'', ''x7'', ''x5'', ''x3'', ''x2''], 7)"
  proof -
    have one: "(1::int) \<le> 1" by simp
    from paginated_contract_call_sites [where page = 1 and req = admin_request
        and db = example_db, THEN conjunct2, THEN conjunct1, THEN mp, OF one]
    have "fetchMembers admin_request example_db None 1
        = Inr (map (member_item_of admin_request example_db)
                 (fst (paginated_contract admin_request example_db 1 (Some Approved))),
               snd (paginated_contract admin_request example_db 1 (Some Approved)))" .
    with pm show ?thesis
      by (simp add: comp_def member_item_of_def)
  qed
  have top5: "take 5 (by_created_at_desc (matching_applications admin_request example_db None))
      = [example_application ''x12'' ''u2'' (Some Approved) (Some 12),
         example_application ''x11'' ''u1'' (Some Pending) (Some 11),
         example_application ''x10'' ''u2'' (Some Approved) (Some 10),
         example_application ''x9'' ''u1'' (Some Rejected) (Some 9),
         example_application ''x8'' ''u2'' (Some Approved) (Some 8)]"
    by (simp add: example_db_all)
       (simp add: example_applications_def example_application_def by_created_at_desc_def)
  have c3: "map_sum id (map (\<lambda>item. (recent_id item, recent_profile item)))
       (fetchRecentApplications admin_request example_db None None)
     = Inr [(''x12'', Some (''u2'', ''B'', ''B@example.org'')),
            (''x11'', Some (''u1'', ''A'', ''A@example.org'')),
            (''x10'', Some (''u2'', ''B'', ''B@example.org'')),
            (''x9'', Some (''u1'', ''A'', ''A@example.org'')),
            (''x8'', Some (''u2'', ''B'', ''B@example.org''))]"
  proof -
    from paginated_contract_call_sites [where req = admin_request and db = example_db,
        THEN conjunct2, THEN conjunct2, THEN conjunct2, THEN conjunct2, THEN conjunct1]
    have "fetchRecentApplications admin_request example_db None None
       = Inr (map (\<lambda>a.
           \<lparr>recent_id = app_id a, recent_created_at = app_created_at a,
            recent_membership_type = app_membership_type a, recent_status = status a,
            recent_user_id = app_user_id a,
            recent_profile =
              map_option (\<lambda>p. (profile_id p, full_name p, email p))
                (find (\<lambda>p. profile_id p = app_user_id a)
                   (rev (select_rows profiles_policies admin_request (user_roles example_db)
                      (profiles example_db))))\<rparr>)
          (take 5 (by_created_at_desc (matching_applications admin_request example_db None))))" .
    then show ?thesis
      by (simp add: top5 example_db_profiles)
         (simp add: example_application_def example_profile_def)
  qed
  have c4: "fetchRecentApplications admin_request example_db None (Some (Request_failed ''offline''))
     = Inl (Request_failed ''offline'')"
    using paginated_contract_call_sites [where req = admin_request and db = example_db
        and e = "Request_failed ''offline''", THEN conjunct2, THEN conjunct2, THEN conjunct2,
        THEN conjunct2, THEN conjunct2, THEN conjunct2, THEN conjunct2]
    by simp
  from p2 c1 c2 c3 c4 show ?thesis by simp
qed

text \<open>
  The claim as stated, that the widget has the shape of the contract, fails: on twelve
  applications the widget returns five rows and no count, where the contract's first page
  holds ten rows and the count 12.
\<close>

theorem recent_applications_counterexample:
  "map_sum id (map recent_id) (fetchRecentApplications admin_request example_db None None)
     = Inr [''x12'', ''x11'', ''x10'', ''x9'', ''x8'']
   \<and> map app_id (fst (paginated_contract admin_request example_db 1 None))
     = [''x12'', ''x11'', ''x10'', ''x9'', ''x8'', ''x7'', ''x6'', ''x5'', ''x4'', ''x3'']
   \<and> snd (paginated_contract admin_request example_db 1 None) = 12"
proof -
  have r: "map_sum id (map recent_id) (fetchRecentApplications admin_request example_db None None)
     = Inr [''x12'', ''x11'', ''x10'', ''x9'', ''x8'']"
    by (simp add: fetchRecentApplications_def run_applications_query_def limit_rows_def
      order_created_at_desc_def from_membership_applications_def select_profiles_in_def
      limited_def window_def Let_def comp_def example_db_all)
       (simp add: example_applications_def example_application_def by_created_at_desc_def)
  have p: "map app_id (fst (paginated_contract admin_request example_db 1 None))
     = [''x12'', ''x11'', ''x10'', ''x9'', ''x8'', ''x7'', ''x6'', ''x5'', ''x4'', ''x3'']
   \<and> snd (paginated_contract admin_request example_db 1 None) = 12"
    by (simp add: paginated_contract_def Let_def example_db_all)
       (simp add: example_applications_def example_application_def by_created_at_desc_def)
  from r p show ?thesis by simp
qed

lemma distinct_key_eq:
  "distinct (map f xs) \<Longrightarrow> x \<in> set xs \<Longrightarrow> y \<in> set xs \<Longrightarrow> f x = f y \<Longrightarrow> x = y"
  by (auto simp: distinct_map dest: inj_onD)

lemma member_item_id: "member_id (member_item_of req db a) = app_id a"
  by (simp add: member_item_of_def)

lemma example_db_distinct: "distinct (map app_id (membership_applications example_db))"
  by (simp add: example_db_def example_applications_def example_application_def)

lemma set_window_limited: "set (limited l (window r xs)) \<subseteq> set xs"
proof -
  have "set (limited l ys) \<subseteq> set ys" for ys :: "'a list"
    by (cases l) (auto simp: limited_def dest: in_set_takeD)
  moreover have "set (window r xs) \<subseteq> set xs"
    by (cases r) (auto simp: window_def dest: in_set_takeD in_set_dropD)
  ultimately show ?thesis by blast
qed

lemma fetchMembers_Inr:
  assumes "fetchMembers req db fault page = Inr (members, count)"
  shows "\<exists>rows. members = map (member_item_of req db) rows
     \<and> set rows \<subseteq> set (matching_applications req db (Some Approved))
     \<and> count = length (matching_applications req db (Some Approved))"
proof -
  let ?m = "matching_applications req db (Some Approved)"
  let ?r = "Some ((page - 1) * ITEMS_PER_PAGE, (page - 1) * ITEMS_PER_PAGE + ITEMS_PER_PAGE - 1)"
  from assms have "members = map (member_item_of req db)
        (limited None (window ?r (by_created_at_desc ?m)))
      \<and> count = length ?m"
    by (auto simp: fetchMembers_def run_applications_query_def range_rows_def
        order_created_at_desc_def eq_status_def from_membership_applications_def
        status_of_label_approved Let_def split: option.splits if_splits)
  moreover have "set (limited None (window ?r (by_created_at_desc ?m))) \<subseteq> set ?m"
    using set_window_limited [of None ?r "by_created_at_desc ?m"]
    by (simp add: set_by_created_at_desc)
  ultimately show ?thesis by blast
qed

text \<open>
  Claim C9. Whatever the page, whenever the member list returns, every member it returns
  is an application whose status is \<open>approved\<close>, and the count is the number of approved
  applications the caller may read (for an administrator, of all approved applications).
  With identifiers unique, as the primary key makes them, no application with another
  status appears among the members. For a page of at least 1 and a request the backend
  answers, the member list does return.
\<close>

theorem fetchMembers_only_approved:
  "(fetchMembers req db fault page = Inr (members, count) \<longrightarrow>
      count = length (filter (\<lambda>a. status a = Some Approved)
                (select_rows membership_applications_policies req (user_roles db)
                   (membership_applications db)))
      \<and> (\<forall>m \<in> set members. \<exists>a \<in> set (membership_applications db).
            app_id a = member_id m \<and> status a = Some Approved)
      \<and> (distinct (map app_id (membership_applications db)) \<longrightarrow>
           (\<forall>a \<in> set (membership_applications db).
              status a \<noteq> Some Approved \<longrightarrow> app_id a \<notin> set (map member_id members)))
      \<and> (admin_access req (user_roles db) \<longrightarrow>
           count = length (filter (\<lambda>a. status a = Some Approved) (membership_applications db))))
   \<and> (1 \<le> page \<longrightarrow> (\<exists>ms c. fetchMembers req db None page = Inr (ms, c)))"
proof (intro conjI impI)
  assume h: "fetchMembers req db fault page = Inr (members, count)"
  from fetchMembers_Inr [OF h] obtain rows where
    m: "members = map (member_item_of req db) rows"
    and sub: "set rows \<subseteq> set (matching_applications req db (Some Approved))"
    and c: "count = length (matching_applications req db (Some Approved))"
    by blast
  have rows: "a \<in> set (membership_applications db) \<and> status a = Some Approved"
    if "a \<in> set rows" for a
    using that sub matching_approved [of a req db Approved] by blast
  from c show "count = length (filter (\<lambda>a. status a = Some Approved)
                (select_rows membership_applications_policies req (user_roles db)
                   (membership_applications db)))"
    by (simp add: matching_applications_def Let_def)
  show "\<forall>m \<in> set members. \<exists>a \<in> set (membership_applications db).
      app_id a = member_id m \<and> status a = Some Approved"
  proof
    fix x assume "x \<in> set members"
    with m obtain a where a: "a \<in> set rows" and x: "x = member_item_of req db a" by auto
    from rows [OF a] x show "\<exists>a \<in> set (membership_applications db).
        app_id a = member_id x \<and> status a = Some Approved"
      by (auto simp: member_item_id)
  qed
  show "admin_access req (user_roles db) \<Longrightarrow>
      count = length (filter (\<lambda>a. status a = Some Approved) (membership_applications db))"
    using c by (simp add: matching_admin)
  assume d: "distinct (map app_id (membership_applications db))"
  show "\<forall>a \<in> set (membership_applications db).
         status a \<noteq> Some Approved \<longrightarrow> app_id a \<notin> set (map member_id members)"
  proof (intro impI ballI notI)
    fix a
    assume a: "a \<in> set (membership_applications db)" and s: "status a \<noteq> Some Approved"
      and i: "app_id a \<in> set (map member_id members)"
    from i m obtain b where b: "b \<in> set rows" and eq: "app_id a = app_id b"
      by (auto simp: member_item_id)
    from rows [OF b] have "b \<in> set (membership_applications db)" and sb: "status b = Some Approved"
      by simp_all
    with d a eq have "a = b" by (auto dest: distinct_key_eq)
    with s sb show False by simp
  qed
next
  assume "1 \<le> page"
  then show "\<exists>ms c. fetchMembers req db None page = Inr (ms, c)"
    using fetchMembers_contract [of page req db] by simp
qed

theorem fetchMembers_only_approved_witness:
  "fetchMembers admin_request example_db None 1
     = Inr (map (member_item_of admin_request example_db)
         [example_application ''x12'' ''u2'' (Some Approved) (Some 12),
          example_application ''x10'' ''u2'' (Some Approved) (Some 10),
          example_application ''x8'' ''u2'' (Some Approved) (Some 8),
          example_application ''x7'' ''u1'' (Some Approved) (Some 7),
          example_application ''x5'' ''u1'' (Some Approved) (Some 5),
          example_application ''x3'' ''u1'' (Some Approved) (Some 3),
          example_application ''x2'' ''u2'' (Some Approved) (Some 2)], 7)
   \<and> ''x1'' \<notin> set (map member_id (map (member_item_of admin_request example_db)
         [example_application ''x12'' ''u2'' (Some Approved) (Some 12),
          example_application ''x10'' ''u2'' (Some Approved) (Some 10),
          example_application ''x8'' ''u2'' (Some Approved) (Some 8),
          example_application ''x7'' ''u1'' (Some Approved) (Some 7),
          example_application ''x5'' ''u1'' (Some Approved) (Some 5),
          example_application ''x3'' ''u1'' (Some Approved) (Some 3),
          example_application ''x2'' ''u2'' (Some Approved) (Some 2)]))
   \<and> length (filter (\<lambda>a. status a = Some Approved) (membership_applications example_db)) = 7"
proof -
  let ?rows = "[example_application ''x12'' ''u2'' (Some Approved) (Some 12),
          example_application ''x10'' ''u2'' (Some Approved) (Some 10),
          example_application ''x8'' ''u2'' (Some Approved) (Some 8),
          example_application ''x7'' ''u1'' (Some Approved) (Some 7),
          example_application ''x5'' ''u1'' (Some Approved) (Some 5),
          example_application ''x3'' ''u1'' (Some Approved) (Some 3),
          example_application ''x2'' ''u2'' (Some Approved) (Some 2)]"
  let ?members = "map (member_item_of admin_request example_db) ?rows"
  have pm: "paginated_contract admin_request example_db 1 (Some Approved) = (?rows, 7)"
    by (simp add: paginated_contract_def Let_def matching_admin [OF example_db_admin])
       (simp add: example_db_def example_applications_def example_application_def
          by_created_at_desc_def)
  have c1: "fetchMembers admin_request example_db None 1 = Inr (?members, 7)"
    using fetchMembers_contract [of 1 admin_request example_db] by (simp add: pm)
  have x1: "example_application ''x1'' ''u1'' (Some Pending) (Some 1)
        \<in> set (membership_applications example_db)
      \<and> status (example_application ''x1'' ''u1'' (Some Pending) (Some 1)) \<noteq> Some Approved
      \<and> app_id (example_application ''x1'' ''u1'' (Some Pending) (Some 1)) = ''x1''"
    by (simp add: example_db_def example_applications_def example_application_def)
  from fetchMembers_only_approved [of admin_request example_db None 1 ?members 7]
    c1 example_db_distinct example_db_admin x1
  have "''x1'' \<notin> set (map member_id ?members)
      \<and> 7 = length (filter (\<lambda>a. status a = Some Approved) (membership_applications example_db))"
    by metis
  with c1 show ?thesis by simp
qed

lemma same_but_status_refl: "same_but_status a a"
  by (simp add: same_but_status_def)

lemma same_but_status_update: "same_but_status a (a\<lparr>status := v\<rparr>)"
  by (simp add: same_but_status_def)

lemma update_rows_frame:
  "update_rows ps req rs (\<lambda>a. app_id a = ident) (\<lambda>a. a\<lparr>status := Some st\<rparr>) tbl = Inr tbl' \<Longrightarrow>
     list_all2 (status_frame ident st) tbl tbl'"
  by (auto simp: update_rows_def list_all2_map2 status_frame_def reachable_def
      same_but_status_refl same_but_status_update intro!: list_all2_same [THEN iffD2]
      split: if_splits)

lemma update_rows_admin:
  "admin_access req rs \<Longrightarrow>
     update_rows membership_applications_policies req rs wh upd tbl
       = Inr (map (\<lambda>a. if wh a then upd a else a) tbl)"
  by (simp add: update_rows_def reachable_def applications_select applications_write
      applications_update_check list_ex_iff)

text \<open>
  Claim C10. A status update changes at most the status of rows whose identifier is the
  one given: every row afterwards agrees with the row before on owner, membership tier,
  amount, payment reference, admin notes and both timestamps, and a row with another
  identifier is unchanged. The other tables are unchanged. When the call raises, the
  database is as it was, and a failing request raises. For an administrator and a request
  the backend answers, the rows with the identifier get the new status.
\<close>

theorem updateApplicationStatus_frame:
  "list_all2 (status_frame ident st) (membership_applications db)
       (membership_applications (snd (updateApplicationStatus req db fault ident st)))
   \<and> profiles (snd (updateApplicationStatus req db fault ident st)) = profiles db
   \<and> user_roles (snd (updateApplicationStatus req db fault ident st)) = user_roles db
   \<and> auth_users (snd (updateApplicationStatus req db fault ident st)) = auth_users db
   \<and> (fst (updateApplicationStatus req db fault ident st) \<noteq> None \<longrightarrow>
        snd (updateApplicationStatus req db fault ident st) = db)
   \<and> (fault \<noteq> None \<longrightarrow> fst (updateApplicationStatus req db fault ident st) = fault)
   \<and> (fault = None \<and> admin_access req (user_roles db) \<longrightarrow>
        updateApplicationStatus req db fault ident st
          = (None, db\<lparr>membership_applications :=
               map (\<lambda>a. if app_id a = ident then a\<lparr>status := Some st\<rparr> else a)
                 (membership_applications db)\<rparr>))"
proof (intro conjI impI)
  have refl: "list_all2 (status_frame ident st) xs xs" for xs
    by (simp add: list_all2_same status_frame_def same_but_status_refl)
  show "list_all2 (status_frame ident st) (membership_applications db)
       (membership_applications (snd (updateApplicationStatus req db fault ident st)))"
    by (auto simp: updateApplicationStatus_def refl dest: update_rows_frame
        split: option.splits sum.splits)
  show "profiles (snd (updateApplicationStatus req db fault ident st)) = profiles db"
    by (simp add: updateApplicationStatus_def split: option.splits sum.splits)
  show "user_roles (snd (updateApplicationStatus req db fault ident st)) = user_roles db"
    by (simp add: updateApplicationStatus_def split: option.splits sum.splits)
  show "auth_users (snd (updateApplicationStatus req db fault ident st)) = auth_users db"
    by (simp add: updateApplicationStatus_def split: option.splits sum.splits)
  show "snd (updateApplicationStatus req db fault ident st) = db"
    if "fst (updateApplicationStatus req db fault ident st) \<noteq> None"
    using that by (simp add: updateApplicationStatus_def split: option.splits sum.splits)
  show "fst (updateApplicationStatus req db fault ident st) = fault" if "fault \<noteq> None"
    using that by (auto simp: updateApplicationStatus_def)
  show "updateApplicationStatus req db fault ident st
          = (None, db\<lparr>membership_applications :=
               map (\<lambda>a. if app_id a = ident then a\<lparr>status := Some st\<rparr> else a)
                 (membership_applications db)\<rparr>)"
    if "fault = None \<and> admin_access req (user_roles db)"
    using that by (simp add: updateApplicationStatus_def update_rows_admin)
qed

theorem updateApplicationStatus_frame_witness:
  "updateApplicationStatus admin_request small_db None ''x1'' Approved
     = (None, small_db\<lparr>membership_applications :=
          [example_application ''x1'' ''u1'' (Some Approved) (Some 1),
           example_application ''x2'' ''u2'' (Some Approved) (Some 2)]\<rparr>)
   \<and> updateApplicationStatus admin_request small_db (Some (Request_failed ''offline'')) ''x1'' Approved
     = (Some (Request_failed ''offline''), small_db)
   \<and> updateApplicationStatus member_request small_db None ''x1'' Approved = (None, small_db)"
proof -
  have adm: "admin_access admin_request (user_roles small_db)"
    by (simp add: admin_access_def admin_request_def small_db_def example_roles_def
        is_admin_def is_admin_rows_def)
  have c1: "updateApplicationStatus admin_request small_db None ''x1'' Approved
     = (None, small_db\<lparr>membership_applications :=
          [example_application ''x1'' ''u1'' (Some Approved) (Some 1),
           example_application ''x2'' ''u2'' (Some Approved) (Some 2)]\<rparr>)"
    using updateApplicationStatus_frame [of "''x1''" Approved small_db admin_request None] adm
    by (simp add: small_db_def example_application_def)
  have f: "fst (updateApplicationStatus admin_request small_db (Some (Request_failed ''offline''))
        ''x1'' Approved) = Some (Request_failed ''offline'')"
    using updateApplicationStatus_frame [of "''x1''" Approved small_db admin_request
        "Some (Request_failed ''offline'')"]
    by simp
  then have "snd (updateApplicationStatus admin_request small_db (Some (Request_failed ''offline''))
        ''x1'' Approved) = small_db"
    using updateApplicationStatus_frame [of "''x1''" Approved small_db admin_request
        "Some (Request_failed ''offline'')"]
    by simp
  with f have c2: "updateApplicationStatus admin_request small_db (Some (Request_failed ''offline''))
      ''x1'' Approved = (Some (Request_failed ''offline''), small_db)"
    by (simp add: prod_eq_iff)
  have c3: "updateApplicationStatus member_request small_db None ''x1'' Approved = (None, small_db)"
    by (simp add: updateApplicationStatus_def update_rows_def reachable_def applications_write
        admin_access_def member_request_def small_db_def example_roles_def is_admin_def
        is_admin_rows_def)
  from c1 c2 c3 show ?thesis by simp
qed

end
